theory Spec2Isabelle
  imports Complex_Main
begin

section \<open>Numbers\<close>

text \<open>
  A TypeScript \<open>number\<close> is modelled as a real number or one of the three
  non-finite values. Arithmetic on finite values is the arithmetic of the reals
  (rounding, overflow and the sign of zero are not modelled); arithmetic that involves a
  non-finite value follows IEEE 754, which is what \<open>Number.isFinite\<close> and the
  comparisons of the source observe.
\<close>

datatype jsnum = Fin real | PInf | NInf | NaN

fun isFinite :: "jsnum \<Rightarrow> bool" where
  "isFinite (Fin r) = True"
| "isFinite PInf = False"
| "isFinite NInf = False"
| "isFinite NaN = False"

text \<open>\<open>a <= b\<close> and \<open>a < b\<close>: every comparison with \<open>NaN\<close> is false.\<close>

fun jle :: "jsnum \<Rightarrow> jsnum \<Rightarrow> bool" where
  "jle (Fin a) (Fin b) = (a \<le> b)"
| "jle (Fin a) PInf = True"
| "jle (Fin a) NInf = False"
| "jle PInf (Fin b) = False"
| "jle PInf PInf = True"
| "jle PInf NInf = False"
| "jle NInf (Fin b) = True"
| "jle NInf PInf = True"
| "jle NInf NInf = True"
| "jle NaN b = False"
| "jle a NaN = False"

fun jlt :: "jsnum \<Rightarrow> jsnum \<Rightarrow> bool" where
  "jlt (Fin a) (Fin b) = (a < b)"
| "jlt (Fin a) PInf = True"
| "jlt (Fin a) NInf = False"
| "jlt PInf (Fin b) = False"
| "jlt PInf PInf = False"
| "jlt PInf NInf = False"
| "jlt NInf (Fin b) = True"
| "jlt NInf PInf = True"
| "jlt NInf NInf = False"
| "jlt NaN b = False"
| "jlt a NaN = False"

fun jneg :: "jsnum \<Rightarrow> jsnum" where
  "jneg (Fin a) = Fin (- a)"
| "jneg PInf = NInf"
| "jneg NInf = PInf"
| "jneg NaN = NaN"

fun jadd :: "jsnum \<Rightarrow> jsnum \<Rightarrow> jsnum" where
  "jadd (Fin a) (Fin b) = Fin (a + b)"
| "jadd (Fin a) PInf = PInf"
| "jadd (Fin a) NInf = NInf"
| "jadd PInf (Fin b) = PInf"
| "jadd PInf PInf = PInf"
| "jadd PInf NInf = NaN"
| "jadd NInf (Fin b) = NInf"
| "jadd NInf PInf = NaN"
| "jadd NInf NInf = NInf"
| "jadd NaN b = NaN"
| "jadd a NaN = NaN"

definition jsub :: "jsnum \<Rightarrow> jsnum \<Rightarrow> jsnum" where
  "jsub a b = jadd a (jneg b)"

text \<open>The product of an infinity and a real: \<open>NaN\<close> at zero, else by sign.\<close>

definition infTimes :: "bool \<Rightarrow> real \<Rightarrow> jsnum" where
  "infTimes positive b =
     (if b = 0 then NaN else if (0 < b) = positive then PInf else NInf)"

fun jmul :: "jsnum \<Rightarrow> jsnum \<Rightarrow> jsnum" where
  "jmul (Fin a) (Fin b) = Fin (a * b)"
| "jmul (Fin a) PInf = infTimes True a"
| "jmul (Fin a) NInf = infTimes False a"
| "jmul PInf (Fin b) = infTimes True b"
| "jmul PInf PInf = PInf"
| "jmul PInf NInf = NInf"
| "jmul NInf (Fin b) = infTimes False b"
| "jmul NInf PInf = NInf"
| "jmul NInf NInf = PInf"
| "jmul NaN b = NaN"
| "jmul a NaN = NaN"

text \<open>
  Division. A zero divisor is the positive zero; the source only ever divides by a
  non-zero literal or by a value it has checked to be positive.
\<close>

fun jdiv :: "jsnum \<Rightarrow> jsnum \<Rightarrow> jsnum" where
  "jdiv (Fin a) (Fin b) =
     (if b = 0 then (if a = 0 then NaN else if 0 < a then PInf else NInf) else Fin (a / b))"
| "jdiv (Fin a) PInf = Fin 0"
| "jdiv (Fin a) NInf = Fin 0"
| "jdiv PInf (Fin b) = (if 0 \<le> b then PInf else NInf)"
| "jdiv PInf PInf = NaN"
| "jdiv PInf NInf = NaN"
| "jdiv NInf (Fin b) = (if 0 \<le> b then NInf else PInf)"
| "jdiv NInf PInf = NaN"
| "jdiv NInf NInf = NaN"
| "jdiv NaN b = NaN"
| "jdiv a NaN = NaN"

fun jcos :: "jsnum \<Rightarrow> jsnum" where
  "jcos (Fin a) = Fin (cos a)"
| "jcos PInf = NaN"
| "jcos NInf = NaN"
| "jcos NaN = NaN"

fun jsin :: "jsnum \<Rightarrow> jsnum" where
  "jsin (Fin a) = Fin (sin a)"
| "jsin PInf = NaN"
| "jsin NInf = NaN"
| "jsin NaN = NaN"

text \<open>\<open>Math.min\<close> and \<open>Math.max\<close>: \<open>NaN\<close> when an argument is \<open>NaN\<close>.\<close>

definition jmin :: "jsnum \<Rightarrow> jsnum \<Rightarrow> jsnum" where
  "jmin a b = (if a = NaN \<or> b = NaN then NaN else if jle a b then a else b)"

definition jmax :: "jsnum \<Rightarrow> jsnum \<Rightarrow> jsnum" where
  "jmax a b = (if a = NaN \<or> b = NaN then NaN else if jle a b then b else a)"

record Vec2 =
  vx :: jsnum
  vy :: jsnum

section \<open>LayerTypes: behaviour configurations\<close>

datatype Direction = Cw | Ccw

record SpinConfig =
  spin_enabled :: bool
  spin_rpm :: jsnum
  spin_direction :: Direction

text \<open>
  \<open>OrbitConfig\<close> declares no direction, but \<open>applyOrbit\<close> reads one through a cast;
  the field is \<open>None\<close> when the object has no such property.
\<close>

record OrbitConfig =
  orbit_enabled :: bool
  orbit_rpm :: jsnum
  orbit_radius :: jsnum
  orbit_center :: "Vec2 option"
  orbit_direction :: "Direction option"

record PulseConfig =
  pulse_enabled :: bool
  pulse_amplitude :: jsnum
  pulse_rpm :: jsnum

record FadeConfig =
  fade_enabled :: bool
  fade_from :: jsnum
  fade_to :: jsnum
  fade_rpm :: jsnum

record BehaviorsConfigNormalized =
  spin :: SpinConfig
  orbit :: OrbitConfig
  pulse :: PulseConfig
  fade :: FadeConfig

section \<open>The four behaviour functions\<close>

text \<open>The \<open>prev\<close> argument and the result of each behaviour: a one-field object.\<close>

record AnglePatch =
  p_angle :: jsnum

record PositionPatch =
  p_position :: Vec2

record ScalePatch =
  p_scale :: Vec2

record OpacityPatch =
  p_opacity :: jsnum

definition applySpin :: "AnglePatch \<Rightarrow> SpinConfig \<Rightarrow> jsnum \<Rightarrow> AnglePatch" where
  "applySpin prev cfg timeSeconds =
     (if \<not> spin_enabled cfg \<or> jle (spin_rpm cfg) (Fin 0) \<or> \<not> isFinite timeSeconds
      then \<lparr>p_angle = p_angle prev\<rparr>
      else
        let deltaDeg = jdiv (jmul (jmul (spin_rpm cfg) (Fin 360)) timeSeconds) (Fin 60);
            signed = (if spin_direction cfg = Ccw then jneg deltaDeg else deltaDeg)
        in \<lparr>p_angle = jadd (p_angle prev) signed\<rparr>)"

definition applyOrbit ::
  "PositionPatch \<Rightarrow> OrbitConfig \<Rightarrow> jsnum \<Rightarrow> Vec2 \<Rightarrow> PositionPatch" where
  "applyOrbit prev cfg timeSeconds baseCenter =
     (if \<not> orbit_enabled cfg \<or> jle (orbit_rpm cfg) (Fin 0) \<or> jle (orbit_radius cfg) (Fin 0)
         \<or> \<not> isFinite timeSeconds
      then \<lparr>p_position = \<lparr>vx = vx (p_position prev), vy = vy (p_position prev)\<rparr>\<rparr>
      else
        let center = (case orbit_center cfg of Some c \<Rightarrow> c | None \<Rightarrow> baseCenter);
            thetaDeg = jdiv (jmul (jmul (orbit_rpm cfg) (Fin 360)) timeSeconds) (Fin 60);
            dir = (case orbit_direction cfg of Some d \<Rightarrow> d | None \<Rightarrow> Cw);
            theta = jmul (if dir = Ccw then jneg thetaDeg else thetaDeg) (jdiv (Fin pi) (Fin 180));
            x = jadd (vx center) (jmul (jcos theta) (orbit_radius cfg));
            y = jadd (vy center) (jmul (jsin theta) (orbit_radius cfg))
        in \<lparr>p_position = \<lparr>vx = x, vy = y\<rparr>\<rparr>)"

definition applyPulse :: "ScalePatch \<Rightarrow> PulseConfig \<Rightarrow> jsnum \<Rightarrow> ScalePatch" where
  "applyPulse prev cfg timeSeconds =
     (if \<not> pulse_enabled cfg \<or> jle (pulse_rpm cfg) (Fin 0) \<or> jle (pulse_amplitude cfg) (Fin 0)
         \<or> \<not> isFinite timeSeconds
      then \<lparr>p_scale = \<lparr>vx = vx (p_scale prev), vy = vy (p_scale prev)\<rparr>\<rparr>
      else
        let phase = jdiv (jmul (jmul (jmul (Fin 2) (Fin pi)) (pulse_rpm cfg)) timeSeconds) (Fin 60);
            s = jadd (Fin 1) (jmul (pulse_amplitude cfg) (jsin phase))
        in \<lparr>p_scale = \<lparr>vx = jmul (vx (p_scale prev)) s, vy = jmul (vy (p_scale prev)) s\<rparr>\<rparr>)"

definition applyFade :: "OpacityPatch \<Rightarrow> FadeConfig \<Rightarrow> jsnum \<Rightarrow> OpacityPatch" where
  "applyFade prev cfg timeSeconds =
     (if \<not> fade_enabled cfg \<or> jle (fade_rpm cfg) (Fin 0) \<or> \<not> isFinite timeSeconds
      then \<lparr>p_opacity = p_opacity prev\<rparr>
      else
        let phase = jdiv (jmul (jmul (jmul (Fin 2) (Fin pi)) (fade_rpm cfg)) timeSeconds) (Fin 60);
            t01 = jdiv (jadd (jsin phase) (Fin 1)) (Fin 2);
            value = jadd (fade_from cfg) (jmul (jsub (fade_to cfg) (fade_from cfg)) t01);
            clamped = jmax (Fin 0) (jmin (Fin 1) value)
        in \<lparr>p_opacity = clamped\<rparr>)"

section \<open>LayerTypes: configuration, normalized configuration, output\<close>

datatype AssetRef = PathRef string | RegistryRef string

record AssetMeta =
  src :: string
  width :: jsnum
  height :: jsnum
  meta_anchor :: "Vec2 option"
  dpi :: "jsnum option"

record StageConfig =
  stage_width :: "jsnum option"
  stage_height :: "jsnum option"
  stage_origin :: "string option"

datatype StageOrigin = OriginCenter | OriginTopLeft

record StageConfigNormalized =
  s_width :: jsnum
  s_height :: jsnum
  s_origin :: StageOrigin

text \<open>\<open>Partial<SpinConfig>\<close> and its siblings: every field may be absent.\<close>

record SpinPartial =
  ps_enabled :: "bool option"
  ps_rpm :: "jsnum option"
  ps_direction :: "Direction option"

record OrbitPartial =
  po_enabled :: "bool option"
  po_rpm :: "jsnum option"
  po_radius :: "jsnum option"
  po_center :: "Vec2 option"

record PulsePartial =
  pp_enabled :: "bool option"
  pp_amplitude :: "jsnum option"
  pp_rpm :: "jsnum option"

record FadePartial =
  pf_enabled :: "bool option"
  pf_from :: "jsnum option"
  pf_to :: "jsnum option"
  pf_rpm :: "jsnum option"

record BehaviorsConfig =
  b_spin :: "SpinPartial option"
  b_orbit :: "OrbitPartial option"
  b_pulse :: "PulsePartial option"
  b_fade :: "FadePartial option"

text \<open>
  Event hooks arrive unchecked. The \<open>set\<close> bag of an entry is an arbitrary JSON
  value, since the validator inspects the runtime type of each of its fields; the
  \<open>action\<close> of an entry is a string or absent.
\<close>

datatype jsval =
    JUndef
  | JNull
  | JBool bool
  | JNum jsnum
  | JStr string
  | JArr "jsval list"
  | JObj "(string \<times> jsval) list"

record EventAction =
  action :: "string option"
  set_bag :: jsval

text \<open>
  The value under one hook key: falsy (absent), something that is not an array, or an
  array of entries.
\<close>

datatype HookList = HookAbsent | HookNotArray | HookArray "EventAction list"

record EventHooksRaw =
  r_onPress :: HookList
  r_onHover :: HookList
  r_onRelease :: HookList

record EventHooks =
  onPress :: "EventAction list option"
  onHover :: "EventAction list option"
  onRelease :: "EventAction list option"

datatype ScaleInput = ScaleNumber jsnum | ScaleVec Vec2

text \<open>
  A raw layer. \<open>layerId = None\<close> stands for every entry the validator treats as
  having no id: a non-object, a missing id, an id that is not a string.
\<close>

record LayerConfig =
  layerId :: "string option"
  imagePath :: "string option"
  registryKey :: "string option"
  position :: "Vec2 option"
  scale :: "ScaleInput option"
  angle :: "jsnum option"
  tilt :: "Vec2 option"
  anchor :: "Vec2 option"
  opacity :: "jsnum option"
  behaviors :: "BehaviorsConfig option"
  events :: "EventHooksRaw option"
  layerWidth :: "jsnum option"
  layerHeight :: "jsnum option"
  fitMode :: "string option"
  alignment :: "string option"

text \<open>
  The container of a normalized layer. The validator casts the raw \<open>fitMode\<close> and
  \<open>alignment\<close> to their enumerations without a check, so the fields hold whatever the
  raw layer held, \<open>None\<close> for \<open>undefined\<close>.
\<close>

record Container =
  c_width :: "jsnum option"
  c_height :: "jsnum option"
  c_fitMode :: "string option"
  c_alignment :: "string option"

record LayerConfigNormalized =
  n_layerId :: string
  n_assetRef :: AssetRef
  n_position :: Vec2
  n_scale :: Vec2
  n_angle :: jsnum
  n_tilt :: Vec2
  n_anchor :: Vec2
  n_opacity :: jsnum
  n_behaviors :: BehaviorsConfigNormalized
  n_events :: EventHooks
  n_container :: "Container option"

text \<open>\<open>layers = None\<close>: the \<open>layers\<close> property is not an array.\<close>

record LibraryConfig =
  stage :: "StageConfig option"
  layers :: "LayerConfig list option"

record LibraryConfigNormalized =
  norm_stage :: StageConfigNormalized
  norm_layers :: "LayerConfigNormalized list"

record Transform =
  t_position :: Vec2
  t_scale :: Vec2
  t_angle :: jsnum
  t_tilt :: Vec2
  t_anchor :: Vec2
  t_opacity :: jsnum

record LayerState =
  isHovered :: bool
  isPressed :: bool
  isActive :: bool
  isVisible :: bool

record LayerData =
  ld_id :: string
  zIndex :: nat
  ld_asset :: AssetRef
  ld_transform :: Transform
  ld_container :: "Container option"
  ld_behaviors :: BehaviorsConfigNormalized
  ld_events :: EventHooks
  ld_state :: LayerState

record ProcessingContext =
  ctx_stage :: StageConfigNormalized
  ctx_time :: jsnum
  registry :: "string \<rightharpoonup> AssetMeta"

section \<open>Strings\<close>

text \<open>The decimal digits of an array index, as a template literal prints it.\<close>

definition digit :: "nat \<Rightarrow> char" where
  "digit n = ''0123456789'' ! (n mod 10)"

function showNat :: "nat \<Rightarrow> string" where
  "showNat n = (if n < 10 then [digit n] else showNat (n div 10) @ [digit n])"
  by pat_completeness auto
termination
  by (relation "measure id") auto

declare showNat.simps [simp del]

text \<open>\<open>Array.prototype.join\<close> on strings.\<close>

fun join :: "string \<Rightarrow> string list \<Rightarrow> string" where
  "join sep [] = []"
| "join sep [a] = a"
| "join sep (a # b # rest) = a @ sep @ join sep (b # rest)"

definition dq :: string where
  "dq = [CHR 0x22]"

section \<open>LayerValidator\<close>

definition DEFAULT_STAGE :: StageConfigNormalized where
  "DEFAULT_STAGE = \<lparr>s_width = Fin 2048, s_height = Fin 2048, s_origin = OriginCenter\<rparr>"

definition DEFAULT_ANCHOR :: Vec2 where
  "DEFAULT_ANCHOR = \<lparr>vx = Fin (1/2), vy = Fin (1/2)\<rparr>"

definition DEFAULT_POSITION :: Vec2 where
  "DEFAULT_POSITION = \<lparr>vx = Fin 0, vy = Fin 0\<rparr>"

definition DEFAULT_TILT :: Vec2 where
  "DEFAULT_TILT = \<lparr>vx = Fin 0, vy = Fin 0\<rparr>"

definition DEFAULT_SCALE :: Vec2 where
  "DEFAULT_SCALE = \<lparr>vx = Fin 1, vy = Fin 1\<rparr>"

definition DEFAULT_OPACITY :: jsnum where
  "DEFAULT_OPACITY = Fin 1"

definition DEFAULT_BEHAVIORS :: BehaviorsConfigNormalized where
  "DEFAULT_BEHAVIORS =
     \<lparr>spin = \<lparr>spin_enabled = False, spin_rpm = Fin 0, spin_direction = Cw\<rparr>,
      orbit = \<lparr>orbit_enabled = False, orbit_rpm = Fin 0, orbit_radius = Fin 0,
               orbit_center = None, orbit_direction = None\<rparr>,
      pulse = \<lparr>pulse_enabled = False, pulse_amplitude = Fin 0, pulse_rpm = Fin 0\<rparr>,
      fade = \<lparr>fade_enabled = False, fade_from = Fin 1, fade_to = Fin 1, fade_rpm = Fin 0\<rparr>\<rparr>"

datatype Severity = SevError | SevWarning

record ValidationIssue =
  code :: string
  path :: string
  message :: string
  severity :: Severity

record ValidationResult =
  ok :: bool
  errors :: "ValidationIssue list"
  warnings :: "ValidationIssue list"
  normalized :: "LibraryConfigNormalized option"

text \<open>\<open>isNum\<close>: a number that is finite; \<open>None\<close> is \<open>undefined\<close>.\<close>

definition isNum :: "jsnum option \<Rightarrow> bool" where
  "isNum n = (case n of Some v \<Rightarrow> isFinite v | None \<Rightarrow> False)"

definition isVec2 :: "Vec2 option \<Rightarrow> bool" where
  "isVec2 v = (case v of Some w \<Rightarrow> isFinite (vx w) \<and> isFinite (vy w) | None \<Rightarrow> False)"

definition isFitMode :: "string option \<Rightarrow> bool" where
  "isFitMode m = (m = Some ''contain'' \<or> m = Some ''cover'' \<or> m = Some ''stretch'')"

definition isAlignment :: "string option \<Rightarrow> bool" where
  "isAlignment a =
     (a = Some ''center'' \<or> a = Some ''top-left'' \<or> a = Some ''top'' \<or> a = Some ''top-right''
      \<or> a = Some ''left'' \<or> a = Some ''right'' \<or> a = Some ''bottom-left''
      \<or> a = Some ''bottom'' \<or> a = Some ''bottom-right'')"

definition isOrigin :: "string option \<Rightarrow> bool" where
  "isOrigin o' = (o' = Some ''center'' \<or> o' = Some ''top-left'')"

definition clamp01 :: "jsnum \<Rightarrow> jsnum" where
  "clamp01 n = jmax (Fin 0) (jmin (Fin 1) n)"

definition normalizeScale :: "ScaleInput option \<Rightarrow> Vec2" where
  "normalizeScale sc =
     (case sc of
        Some (ScaleNumber n) \<Rightarrow> if isNum (Some n) then \<lparr>vx = n, vy = n\<rparr> else DEFAULT_SCALE
      | Some (ScaleVec v) \<Rightarrow> if isVec2 (Some v) then \<lparr>vx = vx v, vy = vy v\<rparr> else DEFAULT_SCALE
      | None \<Rightarrow> DEFAULT_SCALE)"

text \<open>A string property that is present and not empty.\<close>

definition nonEmpty :: "string option \<Rightarrow> bool" where
  "nonEmpty s = (case s of Some t \<Rightarrow> t \<noteq> [] | None \<Rightarrow> False)"

definition toAssetRef :: "LayerConfig \<Rightarrow> AssetRef option" where
  "toAssetRef layer =
     (let hasPath = nonEmpty (imagePath layer);
          hasKey = nonEmpty (registryKey layer)
      in if hasPath \<and> hasKey then None
         else if \<not> hasPath \<and> \<not> hasKey then None
         else if hasPath then map_option PathRef (imagePath layer)
         else map_option RegistryRef (registryKey layer))"

text \<open>\<open>isNum(v) ? v : d\<close> on an optional number.\<close>

definition numOr :: "jsnum option \<Rightarrow> jsnum \<Rightarrow> jsnum" where
  "numOr n d = (case n of Some v \<Rightarrow> if isFinite v then v else d | None \<Rightarrow> d)"

text \<open>\<open>v ?? d\<close>.\<close>

definition orElse :: "'a option \<Rightarrow> 'a \<Rightarrow> 'a" where
  "orElse v d = (case v of Some w \<Rightarrow> w | None \<Rightarrow> d)"

definition normalizeBehaviors :: "BehaviorsConfig option \<Rightarrow> BehaviorsConfigNormalized" where
  "normalizeBehaviors b =
     (let sp = Option.bind b b_spin;
          ob = Option.bind b b_orbit;
          pu = Option.bind b b_pulse;
          fa = Option.bind b b_fade
      in
      \<lparr>spin =
         \<lparr>spin_enabled = orElse (Option.bind sp ps_enabled) (spin_enabled (spin DEFAULT_BEHAVIORS)),
          spin_rpm = numOr (Option.bind sp ps_rpm) (spin_rpm (spin DEFAULT_BEHAVIORS)),
          spin_direction = orElse (Option.bind sp ps_direction) Cw\<rparr>,
       orbit =
         \<lparr>orbit_enabled = orElse (Option.bind ob po_enabled) (orbit_enabled (orbit DEFAULT_BEHAVIORS)),
          orbit_rpm = numOr (Option.bind ob po_rpm) (orbit_rpm (orbit DEFAULT_BEHAVIORS)),
          orbit_radius = numOr (Option.bind ob po_radius) (orbit_radius (orbit DEFAULT_BEHAVIORS)),
          orbit_center =
            (if isVec2 (Option.bind ob po_center) then Option.bind ob po_center else None),
          orbit_direction = None\<rparr>,
       pulse =
         \<lparr>pulse_enabled = orElse (Option.bind pu pp_enabled) (pulse_enabled (pulse DEFAULT_BEHAVIORS)),
          pulse_amplitude =
            numOr (Option.bind pu pp_amplitude) (pulse_amplitude (pulse DEFAULT_BEHAVIORS)),
          pulse_rpm = numOr (Option.bind pu pp_rpm) (pulse_rpm (pulse DEFAULT_BEHAVIORS))\<rparr>,
       fade =
         \<lparr>fade_enabled = orElse (Option.bind fa pf_enabled) (fade_enabled (fade DEFAULT_BEHAVIORS)),
          fade_from =
            (if isNum (Option.bind fa pf_from)
             then clamp01 (numOr (Option.bind fa pf_from) (fade_from (fade DEFAULT_BEHAVIORS)))
             else fade_from (fade DEFAULT_BEHAVIORS)),
          fade_to =
            (if isNum (Option.bind fa pf_to)
             then clamp01 (numOr (Option.bind fa pf_to) (fade_to (fade DEFAULT_BEHAVIORS)))
             else fade_to (fade DEFAULT_BEHAVIORS)),
          fade_rpm = numOr (Option.bind fa pf_rpm) (fade_rpm (fade DEFAULT_BEHAVIORS))\<rparr>\<rparr>)"

subsection \<open>Event hooks\<close>

text \<open>Property access with optional chaining, truthiness and \<open>typeof v === "object"\<close>.\<close>

fun getProp :: "jsval \<Rightarrow> string \<Rightarrow> jsval" where
  "getProp (JObj kvs) k = (case map_of kvs k of Some v \<Rightarrow> v | None \<Rightarrow> JUndef)"
| "getProp v k = JUndef"

fun truthy :: "jsval \<Rightarrow> bool" where
  "truthy JUndef = False"
| "truthy JNull = False"
| "truthy (JBool b) = b"
| "truthy (JNum n) = (n \<noteq> NaN \<and> n \<noteq> Fin 0)"
| "truthy (JStr s) = (s \<noteq> [])"
| "truthy (JArr vs) = True"
| "truthy (JObj kvs) = True"

fun typeofObject :: "jsval \<Rightarrow> bool" where
  "typeofObject JNull = True"
| "typeofObject (JArr vs) = True"
| "typeofObject (JObj kvs) = True"
| "typeofObject v = False"

fun isNumV :: "jsval \<Rightarrow> bool" where
  "isNumV (JNum n) = isFinite n"
| "isNumV v = False"

fun isBoolV :: "jsval \<Rightarrow> bool" where
  "isBoolV (JBool b) = True"
| "isBoolV v = False"

definition isVec2V :: "jsval \<Rightarrow> bool" where
  "isVec2V v = (truthy v \<and> typeofObject v \<and> isNumV (getProp v ''x'') \<and> isNumV (getProp v ''y''))"

definition issue :: "Severity \<Rightarrow> string \<Rightarrow> string \<Rightarrow> string \<Rightarrow> ValidationIssue" where
  "issue sev c p m = \<lparr>code = c, path = p, message = m, severity = sev\<rparr>"

text \<open>\<open>if (cond) errors.push(e)\<close>.\<close>

definition pushIf :: "bool \<Rightarrow> ValidationIssue \<Rightarrow> ValidationIssue list \<Rightarrow> ValidationIssue list" where
  "pushIf cond e es = (if cond then es @ [e] else es)"

text \<open>
  The callback of \<open>list.forEach\<close> in \<open>validateEvents\<close>, on the pair of the error
  array and the array of normalized entries.
\<close>

definition eventEntry ::
  "string \<Rightarrow> string \<Rightarrow> nat \<Rightarrow> EventAction
     \<Rightarrow> ValidationIssue list \<times> EventAction list \<Rightarrow> ValidationIssue list \<times> EventAction list" where
  "eventEntry basePath k idx entry st =
     (let errs = fst st; normalizedEntries = snd st;
          p = basePath @ ''.'' @ k @ ''['' @ showNat idx @ '']'';
          act = action entry
      in
      if act \<noteq> Some ''spin'' \<and> act \<noteq> Some ''orbit'' \<and> act \<noteq> Some ''pulse'' \<and> act \<noteq> Some ''fade''
      then (errs @ [issue SevError ''events.action.unknown'' p
                      (''unknown action '' @ dq @ orElse act ''undefined'' @ dq
                         @ '' (spin|orbit|pulse|fade)'')],
            normalizedEntries)
      else
        let bag = set_bag entry in
        if truthy bag \<and> \<not> typeofObject bag
        then (errs @ [issue SevError ''events.set.invalid'' p ''set must be an object''],
              normalizedEntries)
        else
          let e1 = pushIf (getProp bag ''rpm'' \<noteq> JUndef \<and> \<not> isNumV (getProp bag ''rpm''))
                     (issue SevError ''events.set.rpm'' p ''rpm must be number'') errs;
              e2 = pushIf (getProp bag ''enabled'' \<noteq> JUndef \<and> \<not> isBoolV (getProp bag ''enabled''))
                     (issue SevError ''events.set.enabled'' p ''enabled must be boolean'') e1;
              e3 = pushIf (act = Some ''spin'' \<and> truthy (getProp bag ''direction'')
                           \<and> getProp bag ''direction'' \<noteq> JStr ''cw''
                           \<and> getProp bag ''direction'' \<noteq> JStr ''ccw'')
                     (issue SevError ''events.set.direction'' p
                        (''direction must be '' @ dq @ ''cw'' @ dq @ ''|'' @ dq @ ''ccw'' @ dq)) e2;
              e4 = pushIf (act = Some ''orbit'' \<and> getProp bag ''radius'' \<noteq> JUndef
                           \<and> \<not> isNumV (getProp bag ''radius''))
                     (issue SevError ''events.set.radius'' p ''radius must be number'') e3;
              e5 = pushIf (act = Some ''orbit'' \<and> getProp bag ''center'' \<noteq> JUndef
                           \<and> \<not> isVec2V (getProp bag ''center''))
                     (issue SevError ''events.set.center'' p ''center must be {x,y}'') e4;
              e6 = pushIf (act = Some ''pulse'' \<and> getProp bag ''amplitude'' \<noteq> JUndef
                           \<and> \<not> isNumV (getProp bag ''amplitude''))
                     (issue SevError ''events.set.amplitude'' p ''amplitude must be number'') e5;
              e7 = pushIf (act = Some ''fade'' \<and> getProp bag ''from'' \<noteq> JUndef
                           \<and> \<not> isNumV (getProp bag ''from''))
                     (issue SevError ''events.set.from'' p ''from must be number'') e6;
              e8 = pushIf (act = Some ''fade'' \<and> getProp bag ''to'' \<noteq> JUndef
                           \<and> \<not> isNumV (getProp bag ''to''))
                     (issue SevError ''events.set.to'' p ''to must be number'') e7
          in (e8, normalizedEntries @ [entry]))"

fun forEachEntry ::
  "string \<Rightarrow> string \<Rightarrow> nat \<Rightarrow> EventAction list
     \<Rightarrow> ValidationIssue list \<times> EventAction list \<Rightarrow> ValidationIssue list \<times> EventAction list" where
  "forEachEntry basePath k idx [] st = st"
| "forEachEntry basePath k idx (entry # rest) st =
     forEachEntry basePath k (Suc idx) rest (eventEntry basePath k idx entry st)"

text \<open>One round of the loop over the three hook keys: the new value of \<open>out[k]\<close> and the errors.\<close>

definition validateHook ::
  "HookList \<Rightarrow> string \<Rightarrow> string \<Rightarrow> ValidationIssue list
     \<Rightarrow> EventAction list option \<times> ValidationIssue list" where
  "validateHook lst k basePath errs =
     (case lst of
        HookAbsent \<Rightarrow> (None, errs)
      | HookNotArray \<Rightarrow>
          (None, errs @ [issue SevError ''events.invalid'' (basePath @ ''.'' @ k) ''must be an array''])
      | HookArray entries \<Rightarrow>
          (let r = forEachEntry basePath k 0 entries (errs, []) in (Some (snd r), fst r)))"

definition validateEvents ::
  "EventHooksRaw option \<Rightarrow> ValidationIssue list \<Rightarrow> string \<Rightarrow> EventHooks \<times> ValidationIssue list" where
  "validateEvents hooks errs basePath =
     (let h = orElse hooks \<lparr>r_onPress = HookAbsent, r_onHover = HookAbsent, r_onRelease = HookAbsent\<rparr>;
          a = validateHook (r_onPress h) ''onPress'' basePath errs;
          b = validateHook (r_onHover h) ''onHover'' basePath (snd a);
          c = validateHook (r_onRelease h) ''onRelease'' basePath (snd b)
      in (\<lparr>onPress = fst a, onHover = fst b, onRelease = fst c\<rparr>, snd c))"

subsection \<open>validateLibraryConfig\<close>

text \<open>The arrays and the set that the layer loop updates.\<close>

record VState =
  errs :: "ValidationIssue list"
  warns :: "ValidationIssue list"
  seen :: "string set"
  normalizedLayers :: "LayerConfigNormalized list"

text \<open>\<open>!n\<close> and \<open>n\<close> as a condition, for the optional numbers \<open>width\<close> and \<open>height\<close>.\<close>

definition truthyNum :: "jsnum option \<Rightarrow> bool" where
  "truthyNum n = (case n of Some v \<Rightarrow> v \<noteq> NaN \<and> v \<noteq> Fin 0 | None \<Rightarrow> False)"

text \<open>\<open>n !== undefined && n <= 0\<close>.\<close>

definition nonPositive :: "jsnum option \<Rightarrow> bool" where
  "nonPositive n = (case n of Some v \<Rightarrow> jle v (Fin 0) | None \<Rightarrow> False)"

text \<open>
  The part of the layer callback after the three early returns: defaults, range
  warnings, container checks, behaviours, events, and the push of the normalized layer.
\<close>

definition normalizeLayer :: "VState \<Rightarrow> string \<Rightarrow> LayerConfig \<Rightarrow> string \<Rightarrow> AssetRef \<Rightarrow> VState" where
  "normalizeLayer st base layer lid assetRef =
     (let position' = (if isVec2 (position layer) then orElse (position layer) DEFAULT_POSITION
                       else DEFAULT_POSITION);
          scale' = normalizeScale (scale layer);
          angle' = numOr (angle layer) (Fin 0);
          tilt' = (if isVec2 (tilt layer) then orElse (tilt layer) DEFAULT_TILT else DEFAULT_TILT);
          anchor' = (if isVec2 (anchor layer) then orElse (anchor layer) DEFAULT_ANCHOR
                     else DEFAULT_ANCHOR);
          opacity' = numOr (opacity layer) DEFAULT_OPACITY;
          w1 = pushIf (jlt opacity' (Fin 0) \<or> jlt (Fin 1) opacity')
                 (issue SevWarning ''layer.opacity.range'' (base @ ''.opacity'')
                    ''opacity should be within [0,1]'') (warns st);
          w2 = pushIf (jlt (vx anchor') (Fin 0) \<or> jlt (Fin 1) (vx anchor')
                       \<or> jlt (vy anchor') (Fin 0) \<or> jlt (Fin 1) (vy anchor'))
                 (issue SevWarning ''layer.anchor.range'' (base @ ''.anchor'')
                    ''anchor should be [0..1]'') w1;
          width' = (if isNum (layerWidth layer) then layerWidth layer else None);
          height' = (if isNum (layerHeight layer) then layerHeight layer else None);
          fitMode' = fitMode layer;
          alignment' = alignment layer;
          e1 = pushIf (fitMode' \<noteq> None \<and> \<not> isFitMode fitMode')
                 (issue SevError ''layer.fit.invalid'' (base @ ''.fitMode'')
                    ''fitMode must be contain|cover|stretch'') (errs st);
          e2 = pushIf (alignment' \<noteq> None \<and> \<not> isAlignment alignment')
                 (issue SevError ''layer.alignment.invalid'' (base @ ''.alignment'')
                    ''invalid alignment'') e1;
          e3 = pushIf ((fitMode' \<noteq> None \<or> alignment' \<noteq> None)
                       \<and> (\<not> truthyNum width' \<or> \<not> truthyNum height'))
                 (issue SevError ''layer.container.missing'' base
                    ''fitMode/alignment requires layerWidth and layerHeight'') e2;
          e4 = pushIf (nonPositive width' \<or> nonPositive height')
                 (issue SevError ''layer.container.nonPositive'' base
                    ''layerWidth/layerHeight must be positive numbers'') e3;
          behaviors' = normalizeBehaviors (behaviors layer);
          w3 = pushIf (jlt (orbit_radius (orbit behaviors')) (Fin 0)
                       \<or> jlt (orbit_rpm (orbit behaviors')) (Fin 0))
                 (issue SevWarning ''behavior.orbit.range'' (base @ ''.behaviors.orbit'')
                    ''rpm & radius should be >= 0'') w2;
          w4 = pushIf (jlt (spin_rpm (spin behaviors')) (Fin 0))
                 (issue SevWarning ''behavior.spin.range'' (base @ ''.behaviors.spin.rpm'')
                    ''rpm should be >= 0'') w3;
          w5 = pushIf (jlt (pulse_rpm (pulse behaviors')) (Fin 0)
                       \<or> jlt (pulse_amplitude (pulse behaviors')) (Fin 0))
                 (issue SevWarning ''behavior.pulse.range'' (base @ ''.behaviors.pulse'')
                    ''rpm & amplitude should be >= 0'') w4;
          w6 = pushIf (jlt (fade_rpm (fade behaviors')) (Fin 0))
                 (issue SevWarning ''behavior.fade.range'' (base @ ''.behaviors.fade.rpm'')
                    ''rpm should be >= 0'') w5;
          ev = validateEvents (events layer) e4 (base @ ''.events'');
          normalized' =
            \<lparr>n_layerId = lid, n_assetRef = assetRef, n_position = position', n_scale = scale',
             n_angle = angle', n_tilt = tilt', n_anchor = anchor', n_opacity = opacity',
             n_behaviors = behaviors', n_events = fst ev,
             n_container =
               (if truthyNum width' \<or> truthyNum height' \<or> nonEmpty fitMode' \<or> nonEmpty alignment'
                then Some \<lparr>c_width = width', c_height = height',
                           c_fitMode = fitMode', c_alignment = alignment'\<rparr>
                else None)\<rparr>
      in st\<lparr>errs := snd ev, warns := w6,
            normalizedLayers := normalizedLayers st @ [normalized']\<rparr>)"

text \<open>The template literal \<open>`layers[${idx}]`\<close>.\<close>

definition layerBase :: "nat \<Rightarrow> string" where
  "layerBase idx = ''layers['' @ showNat idx @ '']''"

text \<open>The callback of \<open>input.layers.forEach\<close>.\<close>

definition validateLayer :: "VState \<Rightarrow> nat \<Rightarrow> LayerConfig \<Rightarrow> VState" where
  "validateLayer st idx layer =
     (let base = layerBase idx in
      case layerId layer of
        None \<Rightarrow>
          st\<lparr>errs := errs st @ [issue SevError ''layer.id.missing'' (base @ ''.layerId'')
                                   ''layerId required'']\<rparr>
      | Some lid \<Rightarrow>
          if lid = []
          then st\<lparr>errs := errs st @ [issue SevError ''layer.id.missing'' (base @ ''.layerId'')
                                        ''layerId required'']\<rparr>
          else if lid \<in> seen st
          then st\<lparr>errs := errs st @ [issue SevError ''layer.id.duplicate'' (base @ ''.layerId'')
                                        (''duplicate '' @ dq @ lid @ dq)]\<rparr>
          else
            let st1 = st\<lparr>seen := insert lid (seen st)\<rparr> in
            case toAssetRef layer of
              None \<Rightarrow>
                (let both = nonEmpty (imagePath layer) \<and> nonEmpty (registryKey layer) in
                 st1\<lparr>errs := errs st1 @ [issue SevError ''layer.asset.invalid'' base
                    (if both then ''imagePath and registryKey are mutually exclusive''
                     else ''one of imagePath or registryKey is required'')]\<rparr>)
            | Some assetRef \<Rightarrow> normalizeLayer st1 base layer lid assetRef)"

fun forEachLayer :: "LayerConfig list \<Rightarrow> nat \<Rightarrow> VState \<Rightarrow> VState" where
  "forEachLayer [] idx st = st"
| "forEachLayer (layer # rest) idx st = forEachLayer rest (Suc idx) (validateLayer st idx layer)"

definition normalizeStage :: "StageConfig option \<Rightarrow> StageConfigNormalized" where
  "normalizeStage sg =
     (let w = Option.bind sg stage_width;
          h = Option.bind sg stage_height;
          og = Option.bind sg stage_origin
      in \<lparr>s_width = (case w of
                        Some v \<Rightarrow> if isFinite v \<and> jlt (Fin 0) v then v else s_width DEFAULT_STAGE
                      | None \<Rightarrow> s_width DEFAULT_STAGE),
          s_height = (case h of
                        Some v \<Rightarrow> if isFinite v \<and> jlt (Fin 0) v then v else s_height DEFAULT_STAGE
                      | None \<Rightarrow> s_height DEFAULT_STAGE),
          s_origin = (if og = Some ''center'' then OriginCenter
                      else if og = Some ''top-left'' then OriginTopLeft
                      else s_origin DEFAULT_STAGE)\<rparr>)"

definition validateLibraryConfig :: "LibraryConfig \<Rightarrow> ValidationResult" where
  "validateLibraryConfig input =
     (let stage' = normalizeStage (stage input);
          og = Option.bind (stage input) stage_origin;
          warnings0 = pushIf (og \<noteq> None \<and> \<not> isOrigin og)
            (issue SevWarning ''stage.origin.invalid'' ''stage.origin''
               (''unknown origin '' @ dq @ orElse og [] @ dq @ '', fallback to '' @ dq
                  @ ''center'' @ dq)) []
      in
      case layers input of
        None \<Rightarrow>
          \<lparr>ok = False,
           errors = [issue SevError ''layers.missing'' ''layers'' ''layers must be an array''],
           warnings = warnings0, normalized = None\<rparr>
      | Some ls \<Rightarrow>
          let st = forEachLayer ls 0
                     \<lparr>errs = [], warns = warnings0, seen = {}, normalizedLayers = []\<rparr>
          in if errs st = []
             then \<lparr>ok = True, errors = errs st, warnings = warns st,
                   normalized = Some \<lparr>norm_stage = stage', norm_layers = normalizedLayers st\<rparr>\<rparr>
             else \<lparr>ok = False, errors = errs st, warnings = warns st, normalized = None\<rparr>)"

section \<open>LayerImageResolver\<close>

text \<open>A thrown \<open>Error\<close>, with its message.\<close>

datatype error = Error string

text \<open>
  \<open>AssetRef\<close> is a union of two tagged shapes, so the defensive last \<open>throw\<close> of
  \<open>resolveAsset\<close> (unknown type) has no input here.
\<close>

definition resolveAsset :: "AssetRef \<Rightarrow> (string \<rightharpoonup> AssetMeta) \<Rightarrow> error + AssetMeta" where
  "resolveAsset ref reg =
     (case ref of
        PathRef p \<Rightarrow> Inr \<lparr>src = p, width = NaN, height = NaN, meta_anchor = None, dpi = None\<rparr>
      | RegistryRef k \<Rightarrow>
          (case reg k of
             None \<Rightarrow> Inl (Error (''registry key '' @ dq @ k @ dq @ '' not found''))
           | Some meta \<Rightarrow> Inr meta))"

section \<open>LayerLogicBasic\<close>

definition applyBasicTransform :: "LayerConfigNormalized \<Rightarrow> StageConfigNormalized \<Rightarrow> Transform" where
  "applyBasicTransform layer stg =
     \<lparr>t_position = \<lparr>vx = vx (n_position layer), vy = vy (n_position layer)\<rparr>,
      t_scale = \<lparr>vx = vx (n_scale layer), vy = vy (n_scale layer)\<rparr>,
      t_angle = n_angle layer,
      t_tilt = \<lparr>vx = vx (n_tilt layer), vy = vy (n_tilt layer)\<rparr>,
      t_anchor = \<lparr>vx = vx (n_anchor layer), vy = vy (n_anchor layer)\<rparr>,
      t_opacity = n_opacity layer\<rparr>"

section \<open>LayerProducer\<close>

record ProduceResult =
  out_layers :: "LayerData list"
  out_warnings :: "string list"

text \<open>\<open>errors.map(e => `${e.path}: ${e.message}`).join("; ") || "invalid config"\<close>.\<close>

definition failureReason :: "ValidationIssue list \<Rightarrow> string" where
  "failureReason es =
     (let r = join ''; '' (map (\<lambda>e. path e @ '': '' @ message e) es)
      in if r = [] then ''invalid config'' else r)"

definition copyContainer :: "Container option \<Rightarrow> Container option" where
  "copyContainer c =
     (case c of
        Some k \<Rightarrow> Some \<lparr>c_width = c_width k, c_height = c_height k,
                        c_fitMode = c_fitMode k, c_alignment = c_alignment k\<rparr>
      | None \<Rightarrow> None)"

text \<open>The callback of \<open>layers.map\<close> in \<open>produceLayers\<close>; it throws when the asset does not resolve.\<close>

definition produceLayer ::
  "StageConfigNormalized \<Rightarrow> ProcessingContext \<Rightarrow> LayerConfigNormalized \<Rightarrow> nat \<Rightarrow> error + LayerData" where
  "produceLayer stg ctx lnorm idx =
     (case resolveAsset (n_assetRef lnorm) (registry ctx) of
        Inl e \<Rightarrow> Inl e
      | Inr meta \<Rightarrow>
          let basic = applyBasicTransform lnorm stg;
              spinRes = applySpin \<lparr>p_angle = t_angle basic\<rparr> (spin (n_behaviors lnorm)) (ctx_time ctx);
              orbitRes = applyOrbit \<lparr>p_position = t_position basic\<rparr> (orbit (n_behaviors lnorm))
                           (ctx_time ctx) (t_position basic);
              pulseRes = applyPulse \<lparr>p_scale = t_scale basic\<rparr> (pulse (n_behaviors lnorm)) (ctx_time ctx);
              fadeRes = applyFade \<lparr>p_opacity = t_opacity basic\<rparr> (fade (n_behaviors lnorm)) (ctx_time ctx);
              finalTransform =
                \<lparr>t_position = p_position orbitRes, t_scale = p_scale pulseRes,
                 t_angle = p_angle spinRes, t_tilt = t_tilt basic, t_anchor = t_anchor basic,
                 t_opacity = p_opacity fadeRes\<rparr>
          in Inr \<lparr>ld_id = n_layerId lnorm, zIndex = idx, ld_asset = n_assetRef lnorm,
                  ld_transform = finalTransform, ld_container = copyContainer (n_container lnorm),
                  ld_behaviors = n_behaviors lnorm, ld_events = n_events lnorm,
                  ld_state = \<lparr>isHovered = False, isPressed = False, isActive = False,
                               isVisible = True\<rparr>\<rparr>)"

text \<open>\<open>Array.prototype.map\<close> with a callback that may throw: the first throw ends the call.\<close>

fun mapLayers ::
  "(LayerConfigNormalized \<Rightarrow> nat \<Rightarrow> error + LayerData) \<Rightarrow> LayerConfigNormalized list \<Rightarrow> nat
     \<Rightarrow> error + LayerData list" where
  "mapLayers f [] idx = Inr []"
| "mapLayers f (lnorm # rest) idx =
     (case f lnorm idx of
        Inl e \<Rightarrow> Inl e
      | Inr ld \<Rightarrow>
          (case mapLayers f rest (Suc idx) of
             Inl e \<Rightarrow> Inl e
           | Inr lds \<Rightarrow> Inr (ld # lds)))"

definition warningStrings :: "ValidationIssue list \<Rightarrow> string list" where
  "warningStrings ws = map (\<lambda>w. path w @ '': '' @ message w) ws"

definition produceLayers :: "LibraryConfig \<Rightarrow> ProcessingContext \<Rightarrow> error + ProduceResult" where
  "produceLayers input ctx =
     (let res = validateLibraryConfig input in
      case (if ok res then normalized res else None) of
        None \<Rightarrow> Inl (Error (''produceLayers: validation failed: '' @ failureReason (errors res)))
      | Some n \<Rightarrow>
          (case mapLayers (produceLayer (norm_stage n) ctx) (norm_layers n) 0 of
             Inl e \<Rightarrow> Inl e
           | Inr out \<Rightarrow> Inr \<lparr>out_layers = out, out_warnings = warningStrings (warnings res)\<rparr>))"

section \<open>LayerPipeline\<close>

record NormalizedInput =
  ni_stage :: StageConfigNormalized
  ni_layers :: "LayerConfigNormalized list"
  ni_warnings :: "string list"

definition normalizeInput :: "LibraryConfig \<Rightarrow> error + NormalizedInput" where
  "normalizeInput input =
     (let res = validateLibraryConfig input in
      case (if ok res then normalized res else None) of
        None \<Rightarrow> Inl (Error (''LayerPipeline: validation failed: '' @ failureReason (errors res)))
      | Some n \<Rightarrow>
          Inr \<lparr>ni_stage = norm_stage n, ni_layers = norm_layers n,
               ni_warnings = warningStrings (warnings res)\<rparr>)"

record Options =
  doSpin :: bool
  doOrbit :: bool
  doPulse :: bool
  doFade :: bool

definition buildLayerData ::
  "LayerConfigNormalized \<Rightarrow> nat \<Rightarrow> ProcessingContext \<Rightarrow> Options \<Rightarrow> StageConfigNormalized
     \<Rightarrow> LayerData" where
  "buildLayerData lnorm idx ctx options stg =
     (let basic = applyBasicTransform lnorm stg;
          spinRes = (if doSpin options
                     then applySpin \<lparr>p_angle = t_angle basic\<rparr> (spin (n_behaviors lnorm)) (ctx_time ctx)
                     else \<lparr>p_angle = t_angle basic\<rparr>);
          orbitRes = (if doOrbit options
                      then applyOrbit \<lparr>p_position = t_position basic\<rparr> (orbit (n_behaviors lnorm))
                             (ctx_time ctx) (t_position basic)
                      else \<lparr>p_position = t_position basic\<rparr>);
          pulseRes = (if doPulse options
                      then applyPulse \<lparr>p_scale = t_scale basic\<rparr> (pulse (n_behaviors lnorm)) (ctx_time ctx)
                      else \<lparr>p_scale = t_scale basic\<rparr>);
          fadeRes = (if doFade options
                     then applyFade \<lparr>p_opacity = t_opacity basic\<rparr> (fade (n_behaviors lnorm)) (ctx_time ctx)
                     else \<lparr>p_opacity = t_opacity basic\<rparr>);
          finalTransform =
            \<lparr>t_position = p_position orbitRes, t_scale = p_scale pulseRes,
             t_angle = p_angle spinRes, t_tilt = t_tilt basic, t_anchor = t_anchor basic,
             t_opacity = p_opacity fadeRes\<rparr>
      in \<lparr>ld_id = n_layerId lnorm, zIndex = idx, ld_asset = n_assetRef lnorm,
          ld_transform = finalTransform, ld_container = copyContainer (n_container lnorm),
          ld_behaviors = n_behaviors lnorm, ld_events = n_events lnorm,
          ld_state = \<lparr>isHovered = False, isPressed = False, isActive = False,
                       isVisible = jlt (Fin 0) (t_opacity finalTransform)\<rparr>\<rparr>)"

datatype Wrapper = WSpin | WOrbit | WPulse | WFade

text \<open>The shared body of the composer's closure and of the \<open>produceBasic*\<close> functions.\<close>

definition runPipeline :: "Options \<Rightarrow> LibraryConfig \<Rightarrow> ProcessingContext \<Rightarrow> error + ProduceResult" where
  "runPipeline opts input ctx =
     (case normalizeInput input of
        Inl e \<Rightarrow> Inl e
      | Inr ni \<Rightarrow>
          (case mapLayers (\<lambda>lnorm idx. Inr (buildLayerData lnorm idx ctx opts (ni_stage ni)))
                  (ni_layers ni) 0 of
             Inl e \<Rightarrow> Inl e
           | Inr out \<Rightarrow> Inr \<lparr>out_layers = out, out_warnings = ni_warnings ni\<rparr>))"

definition compose :: "Wrapper list \<Rightarrow> LibraryConfig \<Rightarrow> ProcessingContext \<Rightarrow> error + ProduceResult" where
  "compose wrappers =
     (let opts = \<lparr>doSpin = WSpin \<in> set wrappers, doOrbit = WOrbit \<in> set wrappers,
                  doPulse = WPulse \<in> set wrappers, doFade = WFade \<in> set wrappers\<rparr>
      in runPipeline opts)"

definition produceBasic :: "LibraryConfig \<Rightarrow> ProcessingContext \<Rightarrow> error + ProduceResult" where
  "produceBasic = runPipeline \<lparr>doSpin = False, doOrbit = False, doPulse = False, doFade = False\<rparr>"

definition produceBasicSpin :: "LibraryConfig \<Rightarrow> ProcessingContext \<Rightarrow> error + ProduceResult" where
  "produceBasicSpin = runPipeline \<lparr>doSpin = True, doOrbit = False, doPulse = False, doFade = False\<rparr>"

definition produceBasicOrbit :: "LibraryConfig \<Rightarrow> ProcessingContext \<Rightarrow> error + ProduceResult" where
  "produceBasicOrbit = runPipeline \<lparr>doSpin = False, doOrbit = True, doPulse = False, doFade = False\<rparr>"

definition produceBasicPulse :: "LibraryConfig \<Rightarrow> ProcessingContext \<Rightarrow> error + ProduceResult" where
  "produceBasicPulse = runPipeline \<lparr>doSpin = False, doOrbit = False, doPulse = True, doFade = False\<rparr>"

definition produceBasicFade :: "LibraryConfig \<Rightarrow> ProcessingContext \<Rightarrow> error + ProduceResult" where
  "produceBasicFade = runPipeline \<lparr>doSpin = False, doOrbit = False, doPulse = False, doFade = True\<rparr>"

section \<open>LayerMappingScreen\<close>

definition half :: "StageConfigNormalized \<Rightarrow> Vec2" where
  "half stg = \<lparr>vx = jdiv (s_width stg) (Fin 2), vy = jdiv (s_height stg) (Fin 2)\<rparr>"

definition toCenter :: "StageConfigNormalized \<Rightarrow> Vec2 \<Rightarrow> Vec2" where
  "toCenter stg p =
     (if s_origin stg = OriginCenter then \<lparr>vx = vx p, vy = vy p\<rparr>
      else \<lparr>vx = jsub (vx p) (vx (half stg)), vy = jsub (vy p) (vy (half stg))\<rparr>)"

definition toTopLeft :: "StageConfigNormalized \<Rightarrow> Vec2 \<Rightarrow> Vec2" where
  "toTopLeft stg p =
     (if s_origin stg = OriginTopLeft then \<lparr>vx = vx p, vy = vy p\<rparr>
      else \<lparr>vx = jadd (vx p) (vx (half stg)), vy = jadd (vy p) (vy (half stg))\<rparr>)"

definition center :: "StageConfigNormalized \<Rightarrow> Vec2" where
  "center stg =
     (if s_origin stg = OriginCenter then \<lparr>vx = Fin 0, vy = Fin 0\<rparr>
      else \<lparr>vx = vx (half stg), vy = vy (half stg)\<rparr>)"

definition bounds :: "StageConfigNormalized \<Rightarrow> jsnum \<times> jsnum" where
  "bounds stg = (s_width stg, s_height stg)"

definition defaultPlacement :: "StageConfigNormalized \<Rightarrow> Vec2" where
  "defaultPlacement stg =
     (if s_origin stg = OriginCenter then \<lparr>vx = Fin 0, vy = Fin 0\<rparr>
      else \<lparr>vx = jdiv (s_width stg) (Fin 2), vy = jdiv (s_height stg) (Fin 2)\<rparr>)"

section \<open>LayerMappingImage\<close>








section \<open>Number ranges and test matchers\<close>

text \<open>\<open>Number.MAX_VALUE\<close>, the largest finite double.\<close>

definition MAX_VALUE :: real where
  "MAX_VALUE = (2 - 1 / 2 ^ 52) * 2 ^ 1023"

text \<open>
  The matcher \<open>toBeCloseTo(expected, digits)\<close> of the test suites: the difference is
  below \<open>10^(-digits) / 2\<close>.
\<close>

definition toBeCloseTo :: "jsnum \<Rightarrow> real \<Rightarrow> nat \<Rightarrow> bool" where
  "toBeCloseTo actual expected digits =
     (case actual of Fin a \<Rightarrow> \<bar>expected - a\<bar> < (1 / 10) ^ digits / 2 | _ \<Rightarrow> False)"

section \<open>Example configurations\<close>

text \<open>Configurations of the kind the test suites use, for the closed instances below.\<close>

definition emptyLayer :: LayerConfig where
  "emptyLayer =
     \<lparr>layerId = None, imagePath = None, registryKey = None, position = None, scale = None,
      angle = None, tilt = None, anchor = None, opacity = None, behaviors = None, events = None,
      layerWidth = None, layerHeight = None, fitMode = None, alignment = None\<rparr>"

definition warningConfig :: LibraryConfig where
  "warningConfig =
     \<lparr>stage = None,
      layers = Some [emptyLayer\<lparr>layerId := Some ''warning-layer'', imagePath := Some ''/test.png'',
                                opacity := Some (Fin (3/2))\<rparr>]\<rparr>"

definition mixedConfig :: LibraryConfig where
  "mixedConfig =
     \<lparr>stage = None,
      layers = Some [emptyLayer\<lparr>layerId := Some ''first'', imagePath := Some ''/first.png''\<rparr>,
                     emptyLayer\<lparr>imagePath := Some ''/second.png''\<rparr>]\<rparr>"

definition fadeClampConfig :: LibraryConfig where
  "fadeClampConfig =
     \<lparr>stage = None,
      layers = Some [emptyLayer\<lparr>layerId := Some ''fade-layer'', imagePath := Some ''/test.png'',
        behaviors := Some \<lparr>b_spin = None, b_orbit = None, b_pulse = None,
          b_fade = Some \<lparr>pf_enabled = Some True, pf_from = Some (Fin (3/2)),
                          pf_to = Some (Fin (- 1/2)), pf_rpm = Some (Fin 60)\<rparr>\<rparr>\<rparr>]\<rparr>"

definition widthOnlyConfig :: LibraryConfig where
  "widthOnlyConfig =
     \<lparr>stage = None,
      layers = Some [emptyLayer\<lparr>layerId := Some ''a'', imagePath := Some ''/a.png'',
                                layerWidth := Some (Fin 100)\<rparr>]\<rparr>"

definition exampleContext :: ProcessingContext where
  "exampleContext =
     \<lparr>ctx_stage = \<lparr>s_width = Fin 800, s_height = Fin 600, s_origin = OriginCenter\<rparr>,
      ctx_time = Fin 0,
      registry = [''test-asset'' \<mapsto>
        \<lparr>src = ''/test/image.png'', width = Fin 100, height = Fin 100, meta_anchor = None, dpi = None\<rparr>]\<rparr>"

definition registryConfig :: LibraryConfig where
  "registryConfig =
     \<lparr>stage = None,
      layers = Some [emptyLayer\<lparr>layerId := Some ''registry-layer'',
                                registryKey := Some ''non-existent-key''\<rparr>]\<rparr>"

definition invisibleConfig :: LibraryConfig where
  "invisibleConfig =
     \<lparr>stage = None,
      layers = Some [emptyLayer\<lparr>layerId := Some ''hidden'', imagePath := Some ''/test.png'',
                                opacity := Some (Fin 0)\<rparr>]\<rparr>"

definition plainNormalized :: "string \<Rightarrow> AssetRef \<Rightarrow> jsnum \<Rightarrow> LayerConfigNormalized" where
  "plainNormalized lid ref op =
     \<lparr>n_layerId = lid, n_assetRef = ref, n_position = DEFAULT_POSITION, n_scale = DEFAULT_SCALE,
      n_angle = Fin 0, n_tilt = DEFAULT_TILT, n_anchor = DEFAULT_ANCHOR, n_opacity = op,
      n_behaviors = DEFAULT_BEHAVIORS,
      n_events = \<lparr>onPress = None, onHover = None, onRelease = None\<rparr>, n_container = None\<rparr>"

section \<open>Properties of the behaviour functions\<close>

lemma jlt_pos_not_jle: "jlt (Fin 0) v \<Longrightarrow> \<not> jle v (Fin 0)"
  by (cases v) auto

text \<open>
  C7. Each behaviour returns its \<open>prev\<close> argument unchanged when the behaviour is
  disabled, when its rpm is at most zero (for orbit also when the radius is, for pulse also
  when the amplitude is), or when the elapsed time is not a finite number.
\<close>

theorem behaviors_noop:
  "(\<not> spin_enabled sc \<or> jle (spin_rpm sc) (Fin 0) \<or> \<not> isFinite t
      \<longrightarrow> applySpin pa sc t = pa)
   \<and> (\<not> orbit_enabled oc \<or> jle (orbit_rpm oc) (Fin 0) \<or> jle (orbit_radius oc) (Fin 0)
        \<or> \<not> isFinite t
      \<longrightarrow> applyOrbit pp oc t base = pp)
   \<and> (\<not> pulse_enabled pc \<or> jle (pulse_rpm pc) (Fin 0) \<or> jle (pulse_amplitude pc) (Fin 0)
        \<or> \<not> isFinite t
      \<longrightarrow> applyPulse ps pc t = ps)
   \<and> (\<not> fade_enabled fc \<or> jle (fade_rpm fc) (Fin 0) \<or> \<not> isFinite t
      \<longrightarrow> applyFade po fc t = po)"
  by (simp add: applySpin_def applyOrbit_def applyPulse_def applyFade_def)

theorem behaviors_noop_witness:
  "applySpin \<lparr>p_angle = Fin 45\<rparr> \<lparr>spin_enabled = False, spin_rpm = Fin 30, spin_direction = Cw\<rparr> (Fin 1)
     = \<lparr>p_angle = Fin 45\<rparr>
   \<and> applyOrbit \<lparr>p_position = \<lparr>vx = Fin 3, vy = Fin 4\<rparr>\<rparr>
        \<lparr>orbit_enabled = True, orbit_rpm = Fin 30, orbit_radius = Fin 0, orbit_center = None,
         orbit_direction = None\<rparr> (Fin 1) \<lparr>vx = Fin 0, vy = Fin 0\<rparr>
     = \<lparr>p_position = \<lparr>vx = Fin 3, vy = Fin 4\<rparr>\<rparr>
   \<and> applyPulse \<lparr>p_scale = \<lparr>vx = Fin 2, vy = Fin 3\<rparr>\<rparr>
        \<lparr>pulse_enabled = True, pulse_amplitude = Fin (1/2), pulse_rpm = Fin 60\<rparr> NaN
     = \<lparr>p_scale = \<lparr>vx = Fin 2, vy = Fin 3\<rparr>\<rparr>
   \<and> applyFade \<lparr>p_opacity = Fin (7/10)\<rparr>
        \<lparr>fade_enabled = True, fade_from = Fin (1/5), fade_to = Fin (4/5), fade_rpm = Fin (-5)\<rparr> (Fin 2)
     = \<lparr>p_opacity = Fin (7/10)\<rparr>"
  using behaviors_noop [of "\<lparr>spin_enabled = False, spin_rpm = Fin 30, spin_direction = Cw\<rparr>" "Fin 1"
      "\<lparr>p_angle = Fin 45\<rparr>"]
    behaviors_noop [where oc = "\<lparr>orbit_enabled = True, orbit_rpm = Fin 30, orbit_radius = Fin 0,
      orbit_center = None, orbit_direction = None\<rparr>" and t = "Fin 1"
      and pp = "\<lparr>p_position = \<lparr>vx = Fin 3, vy = Fin 4\<rparr>\<rparr>" and base = "\<lparr>vx = Fin 0, vy = Fin 0\<rparr>"]
    behaviors_noop [where pc = "\<lparr>pulse_enabled = True, pulse_amplitude = Fin (1/2), pulse_rpm = Fin 60\<rparr>"
      and t = NaN and ps = "\<lparr>p_scale = \<lparr>vx = Fin 2, vy = Fin 3\<rparr>\<rparr>"]
    behaviors_noop [where fc = "\<lparr>fade_enabled = True, fade_from = Fin (1/5), fade_to = Fin (4/5),
      fade_rpm = Fin (-5)\<rparr>" and t = "Fin 2" and po = "\<lparr>p_opacity = Fin (7/10)\<rparr>"]
  by simp

text \<open>
  C8 as stated fails at \<open>t = 0\<close>: with an infinite rpm (which is \<open>> 0\<close>), or a finite
  one so large that \<open>rpm * 360\<close> overflows to \<open>Infinity\<close>, the angle is
  \<open>Infinity * 0 = NaN\<close> and the result is \<open>(NaN, NaN)\<close>, not \<open>center + (radius, 0)\<close>.
\<close>

theorem applyOrbit_infinite_rpm_counterexample:
  "jlt (Fin 0) PInf \<and> jlt (Fin 0) (Fin 100) \<and> isFinite (Fin 0)
   \<and> applyOrbit \<lparr>p_position = \<lparr>vx = Fin 7, vy = Fin 9\<rparr>\<rparr>
        \<lparr>orbit_enabled = True, orbit_rpm = PInf, orbit_radius = Fin 100, orbit_center = None,
         orbit_direction = None\<rparr> (Fin 0) \<lparr>vx = Fin 0, vy = Fin 0\<rparr>
     = \<lparr>p_position = \<lparr>vx = NaN, vy = NaN\<rparr>\<rparr>"
  by (simp add: applyOrbit_def infTimes_def)

text \<open>
  C8, amended. For an enabled orbit with positive rpm and radius and a finite elapsed time,
  \<open>applyOrbit\<close> returns the point \<open>center + radius * (cos \<theta>, sin \<theta>)\<close>, where \<open>\<theta>\<close> is
  \<open>rpm * 360 * t / 60\<close> degrees in radians, negated for a counter-clockwise orbit, and
  \<open>center\<close> is the configured center or else the base center of the caller. The result does
  not depend on \<open>prev\<close>. At \<open>t = 0\<close> the result is \<open>center + (radius, 0)\<close> when the radius is
  finite and \<open>rpm * 360\<close> does not exceed the largest finite number. The witness is the
  quarter turn of the specification, rpm 60, radius 100, base center the origin, \<open>t = 0.25\<close>,
  which is close to \<open>(0, 100)\<close> by the measure of the tests, and a start at \<open>t = 0\<close>.
\<close>

theorem applyOrbit_absolute:
  assumes "orbit_enabled cfg" and "jlt (Fin 0) (orbit_rpm cfg)" and "jlt (Fin 0) (orbit_radius cfg)"
    and "isFinite t"
  shows
    "(let c = (case orbit_center cfg of Some k \<Rightarrow> k | None \<Rightarrow> baseCenter);
          deg = jdiv (jmul (jmul (orbit_rpm cfg) (Fin 360)) t) (Fin 60);
          theta = jmul (if orbit_direction cfg = Some Ccw then jneg deg else deg) (Fin (pi / 180))
      in applyOrbit prev cfg t baseCenter =
           \<lparr>p_position = \<lparr>vx = jadd (vx c) (jmul (orbit_radius cfg) (jcos theta)),
                           vy = jadd (vy c) (jmul (orbit_radius cfg) (jsin theta))\<rparr>\<rparr>)
     \<and> applyOrbit prev cfg t baseCenter = applyOrbit prev' cfg t baseCenter
     \<and> (\<forall>r \<rho>.
          orbit_rpm cfg = Fin r \<and> r * 360 \<le> MAX_VALUE \<and> orbit_radius cfg = Fin \<rho> \<and> t = Fin 0
          \<longrightarrow> applyOrbit prev cfg t baseCenter =
                \<lparr>p_position =
                   \<lparr>vx = jadd (vx (case orbit_center cfg of Some k \<Rightarrow> k | None \<Rightarrow> baseCenter)) (Fin \<rho>),
                    vy = vy (case orbit_center cfg of Some k \<Rightarrow> k | None \<Rightarrow> baseCenter)\<rparr>\<rparr>)"
proof -
  have guard: "\<not> (\<not> orbit_enabled cfg \<or> jle (orbit_rpm cfg) (Fin 0) \<or> jle (orbit_radius cfg) (Fin 0)
      \<or> \<not> isFinite t)"
    using assms by (simp add: jlt_pos_not_jle)
  have mulc: "jmul a b = jmul b a" for a b
    by (cases a; cases b) (simp_all add: infTimes_def mult.commute)
  have dir: "(case orbit_direction cfg of Some d \<Rightarrow> d | None \<Rightarrow> Cw) = Ccw
      \<longleftrightarrow> orbit_direction cfg = Some Ccw"
    by (cases "orbit_direction cfg") auto
  have formula: "applyOrbit prev cfg t baseCenter =
      \<lparr>p_position =
        \<lparr>vx = jadd (vx (case orbit_center cfg of Some k \<Rightarrow> k | None \<Rightarrow> baseCenter))
                (jmul (orbit_radius cfg)
                   (jcos (jmul (if orbit_direction cfg = Some Ccw
                                then jneg (jdiv (jmul (jmul (orbit_rpm cfg) (Fin 360)) t) (Fin 60))
                                else jdiv (jmul (jmul (orbit_rpm cfg) (Fin 360)) t) (Fin 60))
                           (Fin (pi / 180))))),
         vy = jadd (vy (case orbit_center cfg of Some k \<Rightarrow> k | None \<Rightarrow> baseCenter))
                (jmul (orbit_radius cfg)
                   (jsin (jmul (if orbit_direction cfg = Some Ccw
                                then jneg (jdiv (jmul (jmul (orbit_rpm cfg) (Fin 360)) t) (Fin 60))
                                else jdiv (jmul (jmul (orbit_rpm cfg) (Fin 360)) t) (Fin 60))
                           (Fin (pi / 180)))))\<rparr>\<rparr>" for prev
    unfolding applyOrbit_def Let_def using guard
    by (simp add: dir mulc [of "orbit_radius cfg"])
  have indep: "applyOrbit prev cfg t baseCenter = applyOrbit prev' cfg t baseCenter"
    by (simp only: formula)
  have plus_zero: "jadd a (Fin 0) = a" for a
    by (cases a) simp_all
  have zero: "applyOrbit prev cfg t baseCenter =
      \<lparr>p_position =
         \<lparr>vx = jadd (vx (case orbit_center cfg of Some k \<Rightarrow> k | None \<Rightarrow> baseCenter)) (Fin \<rho>),
          vy = vy (case orbit_center cfg of Some k \<Rightarrow> k | None \<Rightarrow> baseCenter)\<rparr>\<rparr>"
    if "orbit_rpm cfg = Fin r" "orbit_radius cfg = Fin \<rho>" "t = Fin 0" for r \<rho>
    by (subst formula) (use that in \<open>simp add: plus_zero\<close>)
  show ?thesis
    unfolding Let_def
    using formula [of prev] indep zero by blast
qed

theorem applyOrbit_absolute_witness:
  "toBeCloseTo (vx (p_position (applyOrbit \<lparr>p_position = \<lparr>vx = Fin 7, vy = Fin 9\<rparr>\<rparr>
       \<lparr>orbit_enabled = True, orbit_rpm = Fin 60, orbit_radius = Fin 100, orbit_center = None,
        orbit_direction = None\<rparr> (Fin (1/4)) \<lparr>vx = Fin 0, vy = Fin 0\<rparr>))) 0 5
   \<and> toBeCloseTo (vy (p_position (applyOrbit \<lparr>p_position = \<lparr>vx = Fin 7, vy = Fin 9\<rparr>\<rparr>
       \<lparr>orbit_enabled = True, orbit_rpm = Fin 60, orbit_radius = Fin 100, orbit_center = None,
        orbit_direction = None\<rparr> (Fin (1/4)) \<lparr>vx = Fin 0, vy = Fin 0\<rparr>))) 100 5
   \<and> applyOrbit \<lparr>p_position = \<lparr>vx = Fin 7, vy = Fin 9\<rparr>\<rparr>
       \<lparr>orbit_enabled = True, orbit_rpm = Fin 60, orbit_radius = Fin 100, orbit_center = None,
        orbit_direction = None\<rparr> (Fin 0) \<lparr>vx = Fin 3, vy = Fin 4\<rparr>
     = \<lparr>p_position = \<lparr>vx = Fin 103, vy = Fin 4\<rparr>\<rparr>"
proof -
  have small: "(60::real) * 360 \<le> MAX_VALUE"
  proof -
    have "(60::real) * 360 \<le> 2 ^ 15" by simp
    also have "(2::real) ^ 15 \<le> 2 ^ 1023" by (rule power_increasing) simp_all
    also have "\<dots> \<le> MAX_VALUE" by (simp add: MAX_VALUE_def)
    finally show ?thesis .
  qed
  from applyOrbit_absolute [of "\<lparr>orbit_enabled = True, orbit_rpm = Fin 60, orbit_radius = Fin 100,
      orbit_center = None, orbit_direction = None\<rparr>" "Fin (1/4)" "\<lparr>vx = Fin 0, vy = Fin 0\<rparr>"
      "\<lparr>p_position = \<lparr>vx = Fin 7, vy = Fin 9\<rparr>\<rparr>"]
  have quarter: "applyOrbit \<lparr>p_position = \<lparr>vx = Fin 7, vy = Fin 9\<rparr>\<rparr>
       \<lparr>orbit_enabled = True, orbit_rpm = Fin 60, orbit_radius = Fin 100, orbit_center = None,
        orbit_direction = None\<rparr> (Fin (1/4)) \<lparr>vx = Fin 0, vy = Fin 0\<rparr>
     = \<lparr>p_position = \<lparr>vx = Fin 0, vy = Fin 100\<rparr>\<rparr>"
    by simp
  from applyOrbit_absolute [of "\<lparr>orbit_enabled = True, orbit_rpm = Fin 60, orbit_radius = Fin 100,
      orbit_center = None, orbit_direction = None\<rparr>" "Fin 0" "\<lparr>vx = Fin 3, vy = Fin 4\<rparr>"
      "\<lparr>p_position = \<lparr>vx = Fin 7, vy = Fin 9\<rparr>\<rparr>"] small
  have start: "applyOrbit \<lparr>p_position = \<lparr>vx = Fin 7, vy = Fin 9\<rparr>\<rparr>
       \<lparr>orbit_enabled = True, orbit_rpm = Fin 60, orbit_radius = Fin 100, orbit_center = None,
        orbit_direction = None\<rparr> (Fin 0) \<lparr>vx = Fin 3, vy = Fin 4\<rparr>
     = \<lparr>p_position = \<lparr>vx = Fin 103, vy = Fin 4\<rparr>\<rparr>"
    by simp
  show ?thesis
    by (simp add: quarter start toBeCloseTo_def)
qed

section \<open>Properties of the stage mapping\<close>

text \<open>Stage normalization always yields a finite, positive width and height.\<close>

lemma normalizeStage_positive:
  "isFinite (s_width (normalizeStage sg)) \<and> jlt (Fin 0) (s_width (normalizeStage sg))
   \<and> isFinite (s_height (normalizeStage sg)) \<and> jlt (Fin 0) (s_height (normalizeStage sg))"
  by (simp add: normalizeStage_def Let_def DEFAULT_STAGE_def split: option.splits)

text \<open>
  Each conversion reads \<open>p\<close> in the authored frame of the stage: \<open>toCenter\<close> is the
  identity on a center-origin stage, where \<open>toTopLeft p\<close> is \<open>toCenter p\<close> plus the half
  extents; \<open>toTopLeft\<close> is the identity on a top-left stage, where \<open>toCenter p\<close> is
  \<open>p\<close> minus the half extents. Whether adding the half extents back returns \<open>p\<close> is a
  matter of rounding, which the number model leaves out, so nothing is stated about it.
\<close>

lemma screen_mapping_own_frame:
  "(s_origin stg = OriginCenter \<longrightarrow>
      toCenter stg p = p
      \<and> toTopLeft stg p = \<lparr>vx = jadd (vx (toCenter stg p)) (jdiv (s_width stg) (Fin 2)),
                             vy = jadd (vy (toCenter stg p)) (jdiv (s_height stg) (Fin 2))\<rparr>)
   \<and> (s_origin stg = OriginTopLeft \<longrightarrow>
      toTopLeft stg p = p
      \<and> toCenter stg p = \<lparr>vx = jsub (vx p) (jdiv (s_width stg) (Fin 2)),
                            vy = jsub (vy p) (jdiv (s_height stg) (Fin 2))\<rparr>)"
  by (simp add: toCenter_def toTopLeft_def half_def)

section \<open>Properties of the image mapping\<close>




section \<open>Properties of the validator\<close>

subsection \<open>Errors and warnings only grow\<close>

lemma pushIf_Nil [simp]: "pushIf c e es = [] \<longleftrightarrow> \<not> c \<and> es = []"
  by (simp add: pushIf_def)

lemma pushIf_superset: "set es \<subseteq> set (pushIf c e es)"
  by (auto simp add: pushIf_def)

lemma eventEntry_Nil: "fst (eventEntry bp k i e st) = [] \<Longrightarrow> fst st = []"
  by (simp add: eventEntry_def Let_def split: if_splits)

lemma forEachEntry_Nil: "fst (forEachEntry bp k i es st) = [] \<Longrightarrow> fst st = []"
proof (induction es arbitrary: i st)
  case Nil
  then show ?case by simp
next
  case (Cons e es)
  then have "fst (eventEntry bp k i e st) = []" by simp
  then show ?case by (rule eventEntry_Nil)
qed

lemma validateHook_Nil: "snd (validateHook l k bp es) = [] \<Longrightarrow> es = []"
  by (cases l) (auto simp add: validateHook_def Let_def dest: forEachEntry_Nil)

lemma validateEvents_Nil: "snd (validateEvents h es bp) = [] \<Longrightarrow> es = []"
  by (auto simp add: validateEvents_def Let_def dest!: validateHook_Nil)

lemma normalizeLayer_layers:
  "\<exists>x. normalizedLayers (normalizeLayer st base l lid ref) = normalizedLayers st @ [x]"
  by (simp add: normalizeLayer_def Let_def)

lemma normalizeLayer_errs_Nil:
  "errs (normalizeLayer st base l lid ref) = [] \<Longrightarrow> errs st = []"
  by (auto simp add: normalizeLayer_def Let_def dest!: validateEvents_Nil)

lemma normalizeLayer_warns: "set (warns st) \<subseteq> set (warns (normalizeLayer st base l lid ref))"
  unfolding normalizeLayer_def Let_def
  by (simp add: pushIf_def) blast

lemma validateLayer_cases:
  "errs (validateLayer st idx l) = [] \<Longrightarrow>
   \<exists>lid ref. layerId l = Some lid \<and> lid \<noteq> [] \<and> toAssetRef l = Some ref \<and> errs st = []
     \<and> validateLayer st idx l
         = normalizeLayer (st\<lparr>seen := insert lid (seen st)\<rparr>) (layerBase idx) l lid ref"
  by (auto simp add: validateLayer_def Let_def split: option.splits if_splits
      dest!: normalizeLayer_errs_Nil)

lemma validateLayer_warns: "set (warns st) \<subseteq> set (warns (validateLayer st idx l))"
proof -
  have "set (warns st) \<subseteq> set (warns (normalizeLayer (st\<lparr>seen := s\<rparr>) b l lid r))" for s b lid r
    using normalizeLayer_warns [of "st\<lparr>seen := s\<rparr>" b l lid r] by simp
  then show ?thesis
    by (auto simp add: validateLayer_def Let_def split: option.splits)
qed

lemma forEachLayer_errs_Nil: "errs (forEachLayer ls idx st) = [] \<Longrightarrow> errs st = []"
proof (induction ls arbitrary: idx st)
  case Nil
  then show ?case by simp
next
  case (Cons l ls)
  then have "errs (validateLayer st idx l) = []" by simp
  then show ?case using validateLayer_cases by blast
qed

lemma forEachLayer_warns: "set (warns st) \<subseteq> set (warns (forEachLayer ls idx st))"
proof (induction ls arbitrary: idx st)
  case Nil
  then show ?case by simp
next
  case (Cons l ls)
  have "set (warns st) \<subseteq> set (warns (validateLayer st idx l))"
    by (rule validateLayer_warns)
  also have "\<dots> \<subseteq> set (warns (forEachLayer ls (Suc idx) (validateLayer st idx l)))"
    by (rule Cons.IH)
  finally show ?case by simp
qed

lemma forEachLayer_prefix:
  "errs (forEachLayer ls idx st) = [] \<Longrightarrow>
   \<exists>ns. normalizedLayers (forEachLayer ls idx st) = normalizedLayers st @ ns \<and> length ns = length ls"
proof (induction ls arbitrary: idx st)
  case Nil
  then show ?case by simp
next
  case (Cons l ls)
  let ?st = "validateLayer st idx l"
  from Cons.prems have fin: "errs (forEachLayer ls (Suc idx) ?st) = []" by simp
  then have "errs ?st = []" by (rule forEachLayer_errs_Nil)
  then obtain lid ref where
    "?st = normalizeLayer (st\<lparr>seen := insert lid (seen st)\<rparr>) (layerBase idx) l lid ref"
    using validateLayer_cases by blast
  then obtain x where x: "normalizedLayers ?st = normalizedLayers st @ [x]"
    using normalizeLayer_layers [of "st\<lparr>seen := insert lid (seen st)\<rparr>" "layerBase idx" l lid ref]
    by auto
  from Cons.IH [OF fin] obtain ns where
    "normalizedLayers (forEachLayer ls (Suc idx) ?st) = normalizedLayers ?st @ ns" "length ns = length ls"
    by blast
  then have "normalizedLayers (forEachLayer (l # ls) idx st) = normalizedLayers st @ (x # ns)
      \<and> length (x # ns) = length (l # ls)"
    using x by simp
  then show ?case by blast
qed

text \<open>
  In an accepted configuration, the layer at index \<open>i\<close> went through \<open>normalizeLayer\<close>
  without an error, and the layer it pushed is the one at index \<open>i\<close> of the result.
\<close>

lemma forEachLayer_nth:
  "errs (forEachLayer ls idx st) = [] \<Longrightarrow> i < length ls \<Longrightarrow>
   \<exists>st' lid ref.
     layerId (ls ! i) = Some lid \<and> lid \<noteq> [] \<and> toAssetRef (ls ! i) = Some ref
     \<and> errs (normalizeLayer st' (layerBase (idx + i)) (ls ! i) lid ref) = []
     \<and> set (warns (normalizeLayer st' (layerBase (idx + i)) (ls ! i) lid ref))
         \<subseteq> set (warns (forEachLayer ls idx st))
     \<and> normalizedLayers (forEachLayer ls idx st) ! (length (normalizedLayers st) + i)
         = last (normalizedLayers
                   (normalizeLayer st' (layerBase (idx + i)) (ls ! i) lid ref))"
proof (induction ls arbitrary: idx st i)
  case Nil
  then show ?case by simp
next
  case (Cons l ls)
  let ?st = "validateLayer st idx l"
  from Cons.prems have fin: "errs (forEachLayer ls (Suc idx) ?st) = []" by simp
  then have e: "errs ?st = []" by (rule forEachLayer_errs_Nil)
  then obtain lid ref where l: "layerId l = Some lid" "lid \<noteq> []" "toAssetRef l = Some ref"
    and eq: "?st = normalizeLayer (st\<lparr>seen := insert lid (seen st)\<rparr>)
                    (layerBase idx) l lid ref"
    using validateLayer_cases by blast
  obtain x where x: "normalizedLayers ?st = normalizedLayers st @ [x]"
    using normalizeLayer_layers [of "st\<lparr>seen := insert lid (seen st)\<rparr>" "layerBase idx" l lid ref] eq
    by auto
  show ?case
  proof (cases i)
    case 0
    obtain ns where ns: "normalizedLayers (forEachLayer ls (Suc idx) ?st) = normalizedLayers ?st @ ns"
      using forEachLayer_prefix [OF fin] by blast
    have "normalizedLayers (forEachLayer (l # ls) idx st) ! (length (normalizedLayers st) + i) = x"
      using 0 ns x by (simp add: nth_append)
    moreover have "last (normalizedLayers ?st) = x" using x by simp
    moreover have "set (warns ?st) \<subseteq> set (warns (forEachLayer (l # ls) idx st))"
      using forEachLayer_warns [of ?st ls "Suc idx"] by simp
    ultimately show ?thesis
      using 0 l e eq by (intro exI [of _ "st\<lparr>seen := insert lid (seen st)\<rparr>"] exI [of _ lid] exI [of _ ref]) simp
  next
    case (Suc j)
    then have j: "j < length ls" using Cons.prems by simp
    have len: "length (normalizedLayers ?st) + j = length (normalizedLayers st) + i"
      using x Suc by simp
    from Cons.IH [OF fin j] len Suc show ?thesis by simp
  qed
qed

lemma validate_accepted:
  assumes "normalized (validateLibraryConfig cfg) = Some n"
  shows "\<exists>ls. layers cfg = Some ls \<and> length (norm_layers n) = length ls
    \<and> norm_stage n = normalizeStage (stage cfg)
    \<and> errors (validateLibraryConfig cfg) = [] \<and> ok (validateLibraryConfig cfg)
    \<and> (\<forall>i<length ls. \<exists>st' lid ref.
          layerId (ls ! i) = Some lid \<and> lid \<noteq> [] \<and> toAssetRef (ls ! i) = Some ref
          \<and> errs (normalizeLayer st' (layerBase i) (ls ! i) lid ref) = []
          \<and> set (warns (normalizeLayer st' (layerBase i) (ls ! i) lid ref))
              \<subseteq> set (warnings (validateLibraryConfig cfg))
          \<and> norm_layers n ! i
              = last (normalizedLayers (normalizeLayer st' (layerBase i) (ls ! i) lid ref)))"
proof -
  obtain ls where ls: "layers cfg = Some ls"
    using assms by (cases "layers cfg") (simp_all add: validateLibraryConfig_def Let_def)
  define st0 where "st0 =
    \<lparr>errs = [],
     warns = pushIf (Option.bind (stage cfg) stage_origin \<noteq> None
                      \<and> \<not> isOrigin (Option.bind (stage cfg) stage_origin))
               (issue SevWarning ''stage.origin.invalid'' ''stage.origin''
                  (''unknown origin '' @ dq @ orElse (Option.bind (stage cfg) stage_origin) [] @ dq
                     @ '', fallback to '' @ dq @ ''center'' @ dq)) [],
     seen = {}, normalizedLayers = []\<rparr>"
  have res: "validateLibraryConfig cfg =
      (if errs (forEachLayer ls 0 st0) = []
       then \<lparr>ok = True, errors = errs (forEachLayer ls 0 st0), warnings = warns (forEachLayer ls 0 st0),
             normalized = Some \<lparr>norm_stage = normalizeStage (stage cfg),
                                norm_layers = normalizedLayers (forEachLayer ls 0 st0)\<rparr>\<rparr>
       else \<lparr>ok = False, errors = errs (forEachLayer ls 0 st0),
             warnings = warns (forEachLayer ls 0 st0), normalized = None\<rparr>)"
    by (simp add: validateLibraryConfig_def Let_def ls st0_def)
  have e: "errs (forEachLayer ls 0 st0) = []"
    using assms res by (auto split: if_splits)
  have n: "n = \<lparr>norm_stage = normalizeStage (stage cfg),
                norm_layers = normalizedLayers (forEachLayer ls 0 st0)\<rparr>"
    using assms res e by simp
  have st0_layers: "normalizedLayers st0 = []" by (simp add: st0_def)
  have len: "length (norm_layers n) = length ls"
    using forEachLayer_prefix [OF e] n st0_layers by auto
  have w: "warnings (validateLibraryConfig cfg) = warns (forEachLayer ls 0 st0)"
    using res e by simp
  have nth: "\<exists>st' lid ref.
          layerId (ls ! i) = Some lid \<and> lid \<noteq> [] \<and> toAssetRef (ls ! i) = Some ref
          \<and> errs (normalizeLayer st' (layerBase i) (ls ! i) lid ref) = []
          \<and> set (warns (normalizeLayer st' (layerBase i) (ls ! i) lid ref))
              \<subseteq> set (warnings (validateLibraryConfig cfg))
          \<and> norm_layers n ! i
              = last (normalizedLayers (normalizeLayer st' (layerBase i) (ls ! i) lid ref))"
    if "i < length ls" for i
    using forEachLayer_nth [OF e that] n st0_layers w by simp
  show ?thesis
    using ls len n res e nth by auto
qed

lemma validate_warningConfig:
  "errors (validateLibraryConfig warningConfig) = []
   \<and> map code (warnings (validateLibraryConfig warningConfig)) = [''layer.opacity.range'']"
  by code_simp

lemma validate_mixedConfig:
  "map code (errors (validateLibraryConfig mixedConfig)) = [''layer.id.missing'']"
  by code_simp

text \<open>
  C1. Validation is atomic. Whenever \<open>validateLibraryConfig\<close> records an error, the
  result has \<open>ok = false\<close> and no \<open>normalized\<close> field, whatever the other layers
  were; whenever it records none, \<open>ok = true\<close> and \<open>normalized\<close> is present, with or
  without warnings.
\<close>

theorem validate_atomic:
  "(errors (validateLibraryConfig input) \<noteq> []
      \<longrightarrow> \<not> ok (validateLibraryConfig input) \<and> normalized (validateLibraryConfig input) = None)
   \<and> (errors (validateLibraryConfig input) = []
      \<longrightarrow> ok (validateLibraryConfig input) \<and> normalized (validateLibraryConfig input) \<noteq> None)"
  by (cases "layers input") (simp_all add: validateLibraryConfig_def Let_def)

theorem validate_atomic_witness:
  "warnings (validateLibraryConfig warningConfig) \<noteq> []
   \<and> ok (validateLibraryConfig warningConfig)
   \<and> normalized (validateLibraryConfig warningConfig) \<noteq> None
   \<and> \<not> ok (validateLibraryConfig mixedConfig)
   \<and> normalized (validateLibraryConfig mixedConfig) = None"
proof -
  have a: "errors (validateLibraryConfig warningConfig) = []"
    and w: "warnings (validateLibraryConfig warningConfig) \<noteq> []"
    using validate_warningConfig by auto
  have b: "errors (validateLibraryConfig mixedConfig) \<noteq> []"
    using validate_mixedConfig by auto
  show ?thesis
    using validate_atomic [of warningConfig] validate_atomic [of mixedConfig] a b w by simp
qed

subsection \<open>What a normalized layer holds\<close>

lemma normalizeLayer_fields:
  "n_opacity (last (normalizedLayers (normalizeLayer st base l lid ref))) = numOr (opacity l) DEFAULT_OPACITY"
  "n_anchor (last (normalizedLayers (normalizeLayer st base l lid ref)))
     = (if isVec2 (anchor l) then orElse (anchor l) DEFAULT_ANCHOR else DEFAULT_ANCHOR)"
  "n_position (last (normalizedLayers (normalizeLayer st base l lid ref)))
     = (if isVec2 (position l) then orElse (position l) DEFAULT_POSITION else DEFAULT_POSITION)"
  "n_tilt (last (normalizedLayers (normalizeLayer st base l lid ref)))
     = (if isVec2 (tilt l) then orElse (tilt l) DEFAULT_TILT else DEFAULT_TILT)"
  "n_scale (last (normalizedLayers (normalizeLayer st base l lid ref))) = normalizeScale (scale l)"
  "n_angle (last (normalizedLayers (normalizeLayer st base l lid ref))) = numOr (angle l) (Fin 0)"
  "n_behaviors (last (normalizedLayers (normalizeLayer st base l lid ref))) = normalizeBehaviors (behaviors l)"
  "n_assetRef (last (normalizedLayers (normalizeLayer st base l lid ref))) = ref"
  by (simp_all add: normalizeLayer_def Let_def)

lemma normalizeLayer_opacity_warning:
  assumes "jlt (numOr (opacity l) DEFAULT_OPACITY) (Fin 0) \<or> jlt (Fin 1) (numOr (opacity l) DEFAULT_OPACITY)"
  shows "issue SevWarning ''layer.opacity.range'' (base @ ''.opacity'') ''opacity should be within [0,1]''
           \<in> set (warns (normalizeLayer st base l lid ref))"
proof -
  let ?w1 = "pushIf True (issue SevWarning ''layer.opacity.range'' (base @ ''.opacity'')
                    ''opacity should be within [0,1]'') (warns st)"
  have "\<exists>c2 e2 c3 e3 c4 e4 c5 e5 c6 e6. warns (normalizeLayer st base l lid ref)
      = pushIf c6 e6 (pushIf c5 e5 (pushIf c4 e4 (pushIf c3 e3 (pushIf c2 e2 ?w1))))"
    unfolding normalizeLayer_def Let_def using assms by (simp del: pushIf_Nil) blast
  then obtain c2 e2 c3 e3 c4 e4 c5 e5 c6 e6 where eq: "warns (normalizeLayer st base l lid ref)
      = pushIf c6 e6 (pushIf c5 e5 (pushIf c4 e4 (pushIf c3 e3 (pushIf c2 e2 ?w1))))"
    by blast
  have "issue SevWarning ''layer.opacity.range'' (base @ ''.opacity'') ''opacity should be within [0,1]''
      \<in> set ?w1"
    by (simp add: pushIf_def)
  then show ?thesis
    unfolding eq using pushIf_superset by blast
qed

lemma normalizeLayer_anchor_warning:
  assumes "a = (if isVec2 (anchor l) then orElse (anchor l) DEFAULT_ANCHOR else DEFAULT_ANCHOR)"
    and "jlt (vx a) (Fin 0) \<or> jlt (Fin 1) (vx a) \<or> jlt (vy a) (Fin 0) \<or> jlt (Fin 1) (vy a)"
  shows "issue SevWarning ''layer.anchor.range'' (base @ ''.anchor'') ''anchor should be [0..1]''
           \<in> set (warns (normalizeLayer st base l lid ref))"
proof -
  have "\<exists>ws c3 e3 c4 e4 c5 e5 c6 e6. warns (normalizeLayer st base l lid ref)
      = pushIf c6 e6 (pushIf c5 e5 (pushIf c4 e4 (pushIf c3 e3
          (pushIf True (issue SevWarning ''layer.anchor.range'' (base @ ''.anchor'')
             ''anchor should be [0..1]'') ws))))"
    unfolding normalizeLayer_def Let_def using assms by (simp del: pushIf_Nil) blast
  then obtain ws c3 e3 c4 e4 c5 e5 c6 e6 where eq: "warns (normalizeLayer st base l lid ref)
      = pushIf c6 e6 (pushIf c5 e5 (pushIf c4 e4 (pushIf c3 e3
          (pushIf True (issue SevWarning ''layer.anchor.range'' (base @ ''.anchor'')
             ''anchor should be [0..1]'') ws))))"
    by blast
  have "issue SevWarning ''layer.anchor.range'' (base @ ''.anchor'') ''anchor should be [0..1]''
      \<in> set (pushIf True (issue SevWarning ''layer.anchor.range'' (base @ ''.anchor'')
             ''anchor should be [0..1]'') ws)"
    by (simp add: pushIf_def)
  then show ?thesis
    unfolding eq using pushIf_superset by blast
qed

lemma clamp01_Fin: "clamp01 (Fin v) = Fin (max 0 (min 1 v))"
  by (auto simp add: clamp01_def jmin_def jmax_def max_def min_def)

text \<open>
  C3. A container, when present, is to carry both a fit mode and an alignment, and
  \<open>LayerConfigNormalized\<close> declares both fields as required. The validator builds the
  container from whichever of the four raw fields is set and casts the raw \<open>fitMode\<close>
  and \<open>alignment\<close> without a check or a default: a layer that only gives
  \<open>layerWidth\<close> is accepted and gets a container with neither.
\<close>

theorem container_without_fitMode:
  "ok (validateLibraryConfig widthOnlyConfig)
   \<and> map_option (\<lambda>n. map n_container (norm_layers n)) (normalized (validateLibraryConfig widthOnlyConfig))
     = Some [Some \<lparr>c_width = Some (Fin 100), c_height = None, c_fitMode = None, c_alignment = None\<rparr>]"
  by code_simp

text \<open>
  C4 as stated fails: \<open>normalizeBehaviors\<close> passes the fade bounds through
  \<open>clamp01\<close>, so \<open>from = 1.5\<close> and \<open>to = -0.5\<close> are normalized to \<open>1\<close> and \<open>0\<close>.
\<close>

theorem fade_clamp_counterexample:
  "map_option (\<lambda>n. map (\<lambda>l. (fade_from (fade (n_behaviors l)), fade_to (fade (n_behaviors l))))
                  (norm_layers n))
     (normalized (validateLibraryConfig fadeClampConfig)) = Some [(Fin 1, Fin 0)]"
  by code_simp

section \<open>Properties of the producer and the composer\<close>

lemma validate_normalized_iff:
  "(normalized (validateLibraryConfig cfg) \<noteq> None) = (errors (validateLibraryConfig cfg) = [])"
  "ok (validateLibraryConfig cfg) = (errors (validateLibraryConfig cfg) = [])"
  by (cases "layers cfg"; simp add: validateLibraryConfig_def Let_def)+

lemma join_pairs_nonempty:
  "es \<noteq> [] \<Longrightarrow> join sep (map (\<lambda>e. path e @ '': '' @ message e) es) \<noteq> []"
proof (cases es)
  case Nil
  assume "es \<noteq> []"
  with Nil show ?thesis by simp
next
  case (Cons e rest)
  then show ?thesis by (cases rest) simp_all
qed

lemma failureReason_nonempty:
  "es \<noteq> [] \<Longrightarrow> failureReason es = join ''; '' (map (\<lambda>e. path e @ '': '' @ message e) es)"
  using join_pairs_nonempty [of es "''; ''"] by (simp add: failureReason_def Let_def)

lemma validate_mixedConfig_result:
  "validateLibraryConfig mixedConfig =
     \<lparr>ok = False,
      errors = [\<lparr>code = ''layer.id.missing'', path = ''layers[1].layerId'',
                 message = ''layerId required'', severity = SevError\<rparr>],
      warnings = [], normalized = None\<rparr>"
  by code_simp

lemma produce_mixedConfig:
  "produceLayers mixedConfig exampleContext
     = Inl (Error ''produceLayers: validation failed: layers[1].layerId: layerId required'')"
  by (simp add: produceLayers_def validate_mixedConfig_result failureReason_def)

lemma mapLayers_total:
  "mapLayers (\<lambda>nrm i. Inr (f nrm i)) ls idx = Inr (map (\<lambda>(nrm, i). f nrm i) (zip ls [idx ..< idx + length ls]))"
proof (induction ls arbitrary: idx)
  case Nil
  then show ?case by simp
next
  case (Cons l ls)
  have "[idx ..< idx + length (l # ls)] = idx # [Suc idx ..< Suc idx + length ls]"
    by (simp add: upt_rec)
  then show ?case using Cons.IH [of "Suc idx"] by simp
qed

lemma mapLayers_results:
  "mapLayers f ls idx = Inr out \<Longrightarrow> \<forall>ld\<in>set out. \<exists>nrm i. f nrm i = Inr ld"
proof (induction ls arbitrary: idx out)
  case Nil
  then show ?case by simp
next
  case (Cons l ls)
  then show ?case
    by (auto split: sum.splits) blast+
qed

lemma mapLayers_all_ok:
  "(\<forall>l\<in>set ls. \<forall>i. \<exists>ld. f l i = Inr ld) \<Longrightarrow> \<exists>out. mapLayers f ls idx = Inr out"
proof (induction ls arbitrary: idx)
  case Nil
  then show ?case by simp
next
  case (Cons l ls)
  from Cons.prems have "\<exists>ld. f l idx = Inr ld" by simp
  then obtain ld where "f l idx = Inr ld" by blast
  moreover from Cons.prems have "\<forall>l\<in>set ls. \<forall>i. \<exists>ld. f l i = Inr ld" by simp
  then obtain out where "mapLayers f ls (Suc idx) = Inr out"
    using Cons.IH [of "Suc idx"] by blast
  ultimately show ?case by simp
qed

lemma mapLayers_first_failure:
  assumes "\<exists>l\<in>set ls. \<exists>k. n_assetRef l = RegistryRef k \<and> reg k = None"
  shows "\<exists>k. (\<exists>l\<in>set ls. n_assetRef l = RegistryRef k) \<and> reg k = None
    \<and> mapLayers (produceLayer stg (ctx\<lparr>registry := reg\<rparr>)) ls idx
        = Inl (Error (''registry key '' @ dq @ k @ dq @ '' not found''))"
  using assms
proof (induction ls arbitrary: idx)
  case Nil
  then show ?case by simp
next
  case (Cons l ls)
  show ?case
  proof (cases "\<exists>k. n_assetRef l = RegistryRef k \<and> reg k = None")
    case True
    then obtain k where k: "n_assetRef l = RegistryRef k" "reg k = None" by blast
    then have "produceLayer stg (ctx\<lparr>registry := reg\<rparr>) l idx
        = Inl (Error (''registry key '' @ dq @ k @ dq @ '' not found''))"
      by (simp add: produceLayer_def resolveAsset_def)
    then have "mapLayers (produceLayer stg (ctx\<lparr>registry := reg\<rparr>)) (l # ls) idx
        = Inl (Error (''registry key '' @ dq @ k @ dq @ '' not found''))"
      by simp
    with k show ?thesis by auto
  next
    case False
    with Cons.prems have "\<exists>l\<in>set ls. \<exists>k. n_assetRef l = RegistryRef k \<and> reg k = None"
      by auto
    from Cons.IH [OF this, of "Suc idx"] obtain k where
      k: "\<exists>l\<in>set ls. n_assetRef l = RegistryRef k" "reg k = None"
      "mapLayers (produceLayer stg (ctx\<lparr>registry := reg\<rparr>)) ls (Suc idx)
        = Inl (Error (''registry key '' @ dq @ k @ dq @ '' not found''))"
      by blast
    from False obtain ld where "produceLayer stg (ctx\<lparr>registry := reg\<rparr>) l idx = Inr ld"
      by (cases "n_assetRef l"; cases "reg (case n_assetRef l of RegistryRef k \<Rightarrow> k | PathRef p \<Rightarrow> p)")
         (auto simp add: produceLayer_def resolveAsset_def Let_def)
    with k have "mapLayers (produceLayer stg (ctx\<lparr>registry := reg\<rparr>)) (l # ls) idx
        = Inl (Error (''registry key '' @ dq @ k @ dq @ '' not found''))"
      by simp
    with k show ?thesis by auto
  qed
qed

lemma map_zip_fst: "length ls = length xs \<Longrightarrow> map (\<lambda>(nrm, i). g nrm) (zip ls xs) = map g ls"
  by (induction ls xs rule: list_induct2) simp_all

lemma map_zip_index: "map (\<lambda>(nrm, i). g nrm) (zip ls [a ..< a + length ls]) = map g ls"
  by (rule map_zip_fst) simp

lemma normalizeInput_accepted:
  assumes "normalized (validateLibraryConfig cfg) = Some n"
  shows "normalizeInput cfg =
    Inr \<lparr>ni_stage = norm_stage n, ni_layers = norm_layers n,
         ni_warnings = warningStrings (warnings (validateLibraryConfig cfg))\<rparr>"
proof -
  have "ok (validateLibraryConfig cfg)"
    using assms validate_normalized_iff [of cfg] by simp
  then show ?thesis using assms by (simp add: normalizeInput_def Let_def)
qed

lemma runPipeline_accepted:
  assumes "normalized (validateLibraryConfig cfg) = Some n"
  shows "runPipeline opts cfg ctx =
    Inr \<lparr>out_layers = map (\<lambda>(nrm, i). buildLayerData nrm i ctx opts (norm_stage n))
                         (zip (norm_layers n) [0 ..< 0 + length (norm_layers n)]),
         out_warnings = warningStrings (warnings (validateLibraryConfig cfg))\<rparr>"
  by (simp add: runPipeline_def normalizeInput_accepted [OF assms] mapLayers_total del: upt_0)

lemma runPipeline_assets:
  assumes "normalized (validateLibraryConfig cfg) = Some n"
  shows "\<exists>r. runPipeline opts cfg ctx = Inr r
    \<and> map ld_asset (out_layers r) = map n_assetRef (norm_layers n)"
proof -
  have "map ld_asset (map (\<lambda>(nrm, i). buildLayerData nrm i ctx opts (norm_stage n))
                         (zip (norm_layers n) [0 ..< 0 + length (norm_layers n)]))
      = map (\<lambda>(nrm, i). n_assetRef nrm) (zip (norm_layers n) [0 ..< 0 + length (norm_layers n)])"
    by (simp add: buildLayerData_def Let_def case_prod_unfold comp_def del: upt_0)
  also have "\<dots> = map n_assetRef (norm_layers n)"
    by (rule map_zip_index)
  finally show ?thesis
    using runPipeline_accepted [OF assms, of opts ctx] by simp
qed

lemma runPipeline_state:
  assumes "runPipeline opts cfg ctx = Inr r" and "l \<in> set (out_layers r)"
  shows "ld_state l = \<lparr>isHovered = False, isPressed = False, isActive = False,
                       isVisible = jlt (Fin 0) (t_opacity (ld_transform l))\<rparr>"
proof -
  from assms(1) obtain ni :: NormalizedInput where
    m: "mapLayers (\<lambda>nrm idx. Inr (buildLayerData nrm idx ctx opts (ni_stage ni))) (ni_layers ni) 0
          = Inr (out_layers r)"
    by (auto simp add: runPipeline_def split: sum.splits)
  from mapLayers_results [OF m] assms(2) obtain nrm i where
    "l = buildLayerData nrm i ctx opts (ni_stage ni)" by auto
  then show ?thesis by (simp add: buildLayerData_def Let_def)
qed

lemma produceLayers_state:
  assumes "produceLayers cfg ctx = Inr r" and "l \<in> set (out_layers r)"
  shows "ld_state l = \<lparr>isHovered = False, isPressed = False, isActive = False, isVisible = True\<rparr>"
proof -
  from assms(1) obtain n :: LibraryConfigNormalized where
    m: "mapLayers (produceLayer (norm_stage n) ctx) (norm_layers n) 0 = Inr (out_layers r)"
    by (auto simp add: produceLayers_def Let_def split: sum.splits option.splits if_splits)
  from mapLayers_results [OF m] assms(2) obtain nrm i where
    "produceLayer (norm_stage n) ctx nrm i = Inr l" by auto
  then show ?thesis
    by (auto simp add: produceLayer_def Let_def split: sum.splits)
qed

lemma produceLayers_returns:
  assumes "normalized (validateLibraryConfig cfg) = Some n"
    and "\<forall>l\<in>set (norm_layers n). \<forall>k. n_assetRef l = RegistryRef k \<longrightarrow> registry ctx k \<noteq> None"
  shows "\<exists>r. produceLayers cfg ctx = Inr r"
proof -
  have okc: "ok (validateLibraryConfig cfg)"
    using assms(1) validate_normalized_iff [of cfg] by simp
  have "\<exists>ld. produceLayer (norm_stage n) ctx l i = Inr ld" if "l \<in> set (norm_layers n)" for l i
  proof (cases "n_assetRef l")
    case (PathRef p)
    then show ?thesis by (simp add: produceLayer_def resolveAsset_def Let_def)
  next
    case (RegistryRef k)
    with assms(2) that obtain meta where "registry ctx k = Some meta" by auto
    with RegistryRef show ?thesis by (simp add: produceLayer_def resolveAsset_def Let_def)
  qed
  then obtain out where "mapLayers (produceLayer (norm_stage n) ctx) (norm_layers n) 0 = Inr out"
    using mapLayers_all_ok [of "norm_layers n" "produceLayer (norm_stage n) ctx" 0] by blast
  then show ?thesis
    using assms(1) okc by (simp add: produceLayers_def Let_def)
qed

text \<open>
  C5 as stated fails: the message starts with the name of the function, so it is not
  exactly \<open>validation failed: \<close> followed by the pairs.
\<close>

theorem produceLayers_message_counterexample:
  "\<not> ok (validateLibraryConfig mixedConfig)
   \<and> produceLayers mixedConfig exampleContext
       \<noteq> Inl (Error (''validation failed: ''
            @ join ''; '' (map (\<lambda>e. path e @ '': '' @ message e)
                             (errors (validateLibraryConfig mixedConfig)))))"
  by (simp add: produce_mixedConfig validate_mixedConfig_result)

text \<open>
  C5, amended. For every configuration that validation rejects, \<open>produceLayers\<close>
  throws an error whose message is \<open>produceLayers: validation failed: \<close> followed by the
  \<open>path: message\<close> pairs of the validation errors joined by \<open>; \<close>.
\<close>

theorem produceLayers_validation_message:
  assumes "\<not> ok (validateLibraryConfig cfg)"
  shows "produceLayers cfg ctx =
    Inl (Error (''produceLayers: validation failed: ''
          @ join ''; '' (map (\<lambda>e. path e @ '': '' @ message e) (errors (validateLibraryConfig cfg)))))"
proof -
  have "errors (validateLibraryConfig cfg) \<noteq> []"
    using assms by (simp add: validate_normalized_iff)
  then show ?thesis
    using assms by (simp add: produceLayers_def Let_def failureReason_nonempty)
qed

theorem produceLayers_validation_message_witness:
  "\<not> ok (validateLibraryConfig mixedConfig)
   \<and> produceLayers mixedConfig exampleContext
     = Inl (Error ''produceLayers: validation failed: layers[1].layerId: layerId required'')"
proof -
  have a: "\<not> ok (validateLibraryConfig mixedConfig)"
    using validate_mixedConfig by (auto simp add: validate_normalized_iff)
  show ?thesis
    using produceLayers_validation_message [OF a, of exampleContext] a produce_mixedConfig by simp
qed

lemma validate_registryConfig:
  "validateLibraryConfig registryConfig =
     \<lparr>ok = True, errors = [], warnings = [],
      normalized = Some \<lparr>norm_stage = DEFAULT_STAGE,
        norm_layers = [plainNormalized ''registry-layer'' (RegistryRef ''non-existent-key'') (Fin 1)]\<rparr>\<rparr>"
  by code_simp

lemma validate_invisibleConfig:
  "validateLibraryConfig invisibleConfig =
     \<lparr>ok = True, errors = [], warnings = [],
      normalized = Some \<lparr>norm_stage = DEFAULT_STAGE,
        norm_layers = [plainNormalized ''hidden'' (PathRef ''/test.png'') (Fin 0)]\<rparr>\<rparr>"
  by code_simp

lemma produce_invisibleConfig:
  "map_sum id (\<lambda>r. map (\<lambda>l. t_opacity (ld_transform l)) (out_layers r))
     (produceLayers invisibleConfig exampleContext) = Inr [Fin 0]"
  by (simp add: produceLayers_def validate_invisibleConfig plainNormalized_def produceLayer_def
      resolveAsset_def applyBasicTransform_def applySpin_def applyOrbit_def applyPulse_def
      applyFade_def DEFAULT_BEHAVIORS_def Let_def)

lemma compose_invisibleConfig:
  "map_sum id (\<lambda>r. map (\<lambda>l. t_opacity (ld_transform l)) (out_layers r))
     (compose [WFade] invisibleConfig exampleContext) = Inr [Fin 0]"
  by (simp add: compose_def runPipeline_def normalizeInput_def validate_invisibleConfig
      plainNormalized_def buildLayerData_def
      applyBasicTransform_def applySpin_def applyOrbit_def applyPulse_def
      applyFade_def DEFAULT_BEHAVIORS_def Let_def)

text \<open>
  C2 as stated fails for the composer: with a registry that lacks the key, a pipeline
  built from all four wrappers still returns its layer.
\<close>

theorem composer_ignores_registry_counterexample:
  "normalized (validateLibraryConfig registryConfig) \<noteq> None
   \<and> registry exampleContext ''non-existent-key'' = None
   \<and> (\<exists>r. compose [WSpin, WOrbit, WPulse, WFade] registryConfig exampleContext = Inr r
          \<and> map ld_asset (out_layers r) = [RegistryRef ''non-existent-key''])"
proof -
  have n: "normalized (validateLibraryConfig registryConfig)
      = Some \<lparr>norm_stage = DEFAULT_STAGE,
          norm_layers = [plainNormalized ''registry-layer'' (RegistryRef ''non-existent-key'') (Fin 1)]\<rparr>"
    by (simp add: validate_registryConfig)
  have "\<exists>r. compose [WSpin, WOrbit, WPulse, WFade] registryConfig exampleContext = Inr r
          \<and> map ld_asset (out_layers r) = [RegistryRef ''non-existent-key'']"
    unfolding compose_def Let_def
    using runPipeline_assets [OF n] by (simp add: plainNormalized_def)
  then show ?thesis
    by (simp add: n exampleContext_def)
qed

text \<open>
  C2, amended. For a configuration that passes validation and a context whose registry
  lacks the key of some layer's registry reference, \<open>produceLayers\<close> throws
  \<open>registry key "<key>" not found\<close> for such a key and emits nothing. A composer-built
  pipeline never consults the registry: it returns one layer per normalized layer, each
  carrying its asset reference unresolved.
\<close>

theorem missing_registry_key:
  assumes "normalized (validateLibraryConfig cfg) = Some n"
    and "\<exists>l\<in>set (norm_layers n). \<exists>k. n_assetRef l = RegistryRef k \<and> registry ctx k = None"
  shows "(\<exists>k. (\<exists>l\<in>set (norm_layers n). n_assetRef l = RegistryRef k) \<and> registry ctx k = None
            \<and> produceLayers cfg ctx = Inl (Error (''registry key '' @ dq @ k @ dq @ '' not found'')))
         \<and> (\<exists>r. compose wrappers cfg ctx = Inr r
               \<and> map ld_asset (out_layers r) = map n_assetRef (norm_layers n))"
proof -
  have okc: "ok (validateLibraryConfig cfg)"
    using assms(1) validate_normalized_iff [of cfg] by simp
  from mapLayers_first_failure [of "norm_layers n" "registry ctx" "norm_stage n" ctx 0, OF assms(2)]
  obtain k where k: "\<exists>l\<in>set (norm_layers n). n_assetRef l = RegistryRef k" "registry ctx k = None"
    "mapLayers (produceLayer (norm_stage n) ctx) (norm_layers n) 0
       = Inl (Error (''registry key '' @ dq @ k @ dq @ '' not found''))"
    by auto
  have "produceLayers cfg ctx = Inl (Error (''registry key '' @ dq @ k @ dq @ '' not found''))"
    using assms(1) okc k(3) by (simp add: produceLayers_def Let_def)
  moreover have "\<exists>r. compose wrappers cfg ctx = Inr r
               \<and> map ld_asset (out_layers r) = map n_assetRef (norm_layers n)"
    unfolding compose_def Let_def by (rule runPipeline_assets [OF assms(1)])
  ultimately show ?thesis using k by blast
qed

theorem missing_registry_key_witness:
  "produceLayers registryConfig exampleContext
     = Inl (Error (''registry key '' @ dq @ ''non-existent-key'' @ dq @ '' not found''))
   \<and> (\<exists>r. compose [WSpin] registryConfig exampleContext = Inr r
          \<and> map ld_asset (out_layers r) = [RegistryRef ''non-existent-key''])"
proof -
  let ?n = "\<lparr>norm_stage = DEFAULT_STAGE,
          norm_layers = [plainNormalized ''registry-layer'' (RegistryRef ''non-existent-key'') (Fin 1)]\<rparr>"
  have n: "normalized (validateLibraryConfig registryConfig) = Some ?n"
    by (simp add: validate_registryConfig)
  have missing: "\<exists>l\<in>set (norm_layers ?n). \<exists>k. n_assetRef l = RegistryRef k
      \<and> registry exampleContext k = None"
    by (simp add: plainNormalized_def exampleContext_def)
  from missing_registry_key [OF n missing, of "[WSpin]"] show ?thesis
    by (auto simp add: plainNormalized_def)
qed

text \<open>
  C6. Every layer that \<open>produceLayers\<close> emits has \<open>isVisible = true\<close>, whatever its
  final opacity; every layer that a composer-built pipeline or one of the
  \<open>produceBasic*\<close> functions emits has \<open>isVisible\<close> equal to \<open>opacity > 0\<close> of its
  final transform. The other three flags are false on both paths. For a valid
  configuration the composer always returns, and \<open>produceLayers\<close> returns when the
  registry holds every key that a layer refers to.
\<close>

theorem visibility_flags:
  "(produceLayers cfg ctx = Inr r
      \<longrightarrow> (\<forall>l\<in>set (out_layers r).
            ld_state l = \<lparr>isHovered = False, isPressed = False, isActive = False, isVisible = True\<rparr>))
   \<and> (p \<in> {compose wrappers, produceBasic, produceBasicSpin, produceBasicOrbit, produceBasicPulse,
              produceBasicFade}
        \<and> p cfg ctx = Inr r'
      \<longrightarrow> (\<forall>l\<in>set (out_layers r').
            ld_state l = \<lparr>isHovered = False, isPressed = False, isActive = False,
                           isVisible = jlt (Fin 0) (t_opacity (ld_transform l))\<rparr>))
   \<and> (ok (validateLibraryConfig cfg)
      \<longrightarrow> (\<exists>r. compose wrappers cfg ctx = Inr r)
          \<and> ((\<forall>n l k. normalized (validateLibraryConfig cfg) = Some n \<and> l \<in> set (norm_layers n)
                  \<and> n_assetRef l = RegistryRef k \<longrightarrow> registry ctx k \<noteq> None)
              \<longrightarrow> (\<exists>r. produceLayers cfg ctx = Inr r)))"
proof (intro conjI impI ballI)
  fix l
  assume "produceLayers cfg ctx = Inr r" and "l \<in> set (out_layers r)"
  then show "ld_state l = \<lparr>isHovered = False, isPressed = False, isActive = False, isVisible = True\<rparr>"
    by (rule produceLayers_state)
next
  fix l
  assume a: "p \<in> {compose wrappers, produceBasic, produceBasicSpin, produceBasicOrbit,
      produceBasicPulse, produceBasicFade} \<and> p cfg ctx = Inr r'"
    and l: "l \<in> set (out_layers r')"
  from a obtain opts where "runPipeline opts cfg ctx = Inr r'"
    by (auto simp add: compose_def produceBasic_def produceBasicSpin_def produceBasicOrbit_def
        produceBasicPulse_def produceBasicFade_def Let_def)
  then show "ld_state l = \<lparr>isHovered = False, isPressed = False, isActive = False,
                           isVisible = jlt (Fin 0) (t_opacity (ld_transform l))\<rparr>"
    using l by (rule runPipeline_state)
next
  assume "ok (validateLibraryConfig cfg)"
  then obtain n where n: "normalized (validateLibraryConfig cfg) = Some n"
    using validate_normalized_iff [of cfg] by auto
  show "\<exists>r. compose wrappers cfg ctx = Inr r"
    unfolding compose_def Let_def using runPipeline_assets [OF n] by blast
next
  assume "ok (validateLibraryConfig cfg)"
    and keys: "\<forall>n l k. normalized (validateLibraryConfig cfg) = Some n \<and> l \<in> set (norm_layers n)
                  \<and> n_assetRef l = RegistryRef k \<longrightarrow> registry ctx k \<noteq> None"
  then obtain n where n: "normalized (validateLibraryConfig cfg) = Some n"
    using validate_normalized_iff [of cfg] by auto
  show "\<exists>r. produceLayers cfg ctx = Inr r"
    using produceLayers_returns [OF n] keys n by blast
qed

theorem visibility_flags_witness:
  "(\<exists>r. produceLayers invisibleConfig exampleContext = Inr r
        \<and> map (\<lambda>l. (t_opacity (ld_transform l), isVisible (ld_state l))) (out_layers r)
            = [(Fin 0, True)])
   \<and> (\<exists>r. compose [WFade] invisibleConfig exampleContext = Inr r
        \<and> map (\<lambda>l. (t_opacity (ld_transform l), isVisible (ld_state l))) (out_layers r)
            = [(Fin 0, False)])"
proof -
  from produce_invisibleConfig obtain r where
    r: "produceLayers invisibleConfig exampleContext = Inr r"
      "map (\<lambda>l. t_opacity (ld_transform l)) (out_layers r) = [Fin 0]"
    by (cases "produceLayers invisibleConfig exampleContext") auto
  from compose_invisibleConfig obtain r' where
    r': "compose [WFade] invisibleConfig exampleContext = Inr r'"
      "map (\<lambda>l. t_opacity (ld_transform l)) (out_layers r') = [Fin 0]"
    by (cases "compose [WFade] invisibleConfig exampleContext") auto
  from r(2) obtain l where l: "out_layers r = [l]" "t_opacity (ld_transform l) = Fin 0"
    by (cases "out_layers r") auto
  from r'(2) obtain l' where l': "out_layers r' = [l']" "t_opacity (ld_transform l') = Fin 0"
    by (cases "out_layers r'") auto
  from visibility_flags [of invisibleConfig exampleContext r "compose [WFade]" "[WFade]" r'] r r' l l'
  show ?thesis by simp
qed

section \<open>Values carried through normalization\<close>

lemma normalizeBehaviors_carried:
  assumes "bs = Some b"
  shows "(\<forall>s. b_spin b = Some s \<and> ps_rpm s = Some (Fin v)
               \<longrightarrow> spin_rpm (spin (normalizeBehaviors bs)) = Fin v)
          \<and> (\<forall>ob. b_orbit b = Some ob \<and> po_rpm ob = Some (Fin v)
               \<longrightarrow> orbit_rpm (orbit (normalizeBehaviors bs)) = Fin v)
          \<and> (\<forall>ob. b_orbit b = Some ob \<and> po_radius ob = Some (Fin v)
               \<longrightarrow> orbit_radius (orbit (normalizeBehaviors bs)) = Fin v)
          \<and> (\<forall>pu. b_pulse b = Some pu \<and> pp_amplitude pu = Some (Fin v)
               \<longrightarrow> pulse_amplitude (pulse (normalizeBehaviors bs)) = Fin v)
          \<and> (\<forall>pu. b_pulse b = Some pu \<and> pp_rpm pu = Some (Fin v)
               \<longrightarrow> pulse_rpm (pulse (normalizeBehaviors bs)) = Fin v)
          \<and> (\<forall>fa. b_fade b = Some fa \<and> pf_rpm fa = Some (Fin v)
               \<longrightarrow> fade_rpm (fade (normalizeBehaviors bs)) = Fin v)
          \<and> (\<forall>fa. b_fade b = Some fa \<and> pf_from fa = Some (Fin v)
               \<longrightarrow> fade_from (fade (normalizeBehaviors bs)) = Fin (max 0 (min 1 v)))
          \<and> (\<forall>fa. b_fade b = Some fa \<and> pf_to fa = Some (Fin v)
               \<longrightarrow> fade_to (fade (normalizeBehaviors bs)) = Fin (max 0 (min 1 v)))"
  using assms
  by (simp add: normalizeBehaviors_def Let_def numOr_def isNum_def clamp01_Fin)

text \<open>
  C4, amended. Normalization keeps the raw finite value of \<open>opacity\<close>, \<open>anchor\<close>,
  \<open>angle\<close>, \<open>position\<close>, \<open>tilt\<close> and \<open>scale\<close>, and of the rpm, radius and amplitude
  of the behaviours, without clamping; an opacity or anchor outside \<open>[0,1]\<close> is kept as
  it is and recorded as a warning. The exception is the fade configuration: its \<open>from\<close>
  and \<open>to\<close> are clamped into \<open>[0,1]\<close>.
\<close>

theorem normalization_keeps_values:
  assumes "layers cfg = Some ls" and "normalized (validateLibraryConfig cfg) = Some n"
    and "i < length ls"
  shows "length (norm_layers n) = length ls
    \<and> (\<forall>v. opacity (ls ! i) = Some (Fin v) \<longrightarrow>
          n_opacity (norm_layers n ! i) = Fin v
          \<and> (v < 0 \<or> 1 < v \<longrightarrow>
               issue SevWarning ''layer.opacity.range'' (layerBase i @ ''.opacity'')
                 ''opacity should be within [0,1]'' \<in> set (warnings (validateLibraryConfig cfg))))
    \<and> (\<forall>ax ay. anchor (ls ! i) = Some \<lparr>vx = Fin ax, vy = Fin ay\<rparr> \<longrightarrow>
          n_anchor (norm_layers n ! i) = \<lparr>vx = Fin ax, vy = Fin ay\<rparr>
          \<and> (ax < 0 \<or> 1 < ax \<or> ay < 0 \<or> 1 < ay \<longrightarrow>
               issue SevWarning ''layer.anchor.range'' (layerBase i @ ''.anchor'')
                 ''anchor should be [0..1]'' \<in> set (warnings (validateLibraryConfig cfg))))
    \<and> (\<forall>v. angle (ls ! i) = Some (Fin v) \<longrightarrow> n_angle (norm_layers n ! i) = Fin v)
    \<and> (\<forall>px py. position (ls ! i) = Some \<lparr>vx = Fin px, vy = Fin py\<rparr> \<longrightarrow>
          n_position (norm_layers n ! i) = \<lparr>vx = Fin px, vy = Fin py\<rparr>)
    \<and> (\<forall>tx ty. tilt (ls ! i) = Some \<lparr>vx = Fin tx, vy = Fin ty\<rparr> \<longrightarrow>
          n_tilt (norm_layers n ! i) = \<lparr>vx = Fin tx, vy = Fin ty\<rparr>)
    \<and> (\<forall>v. scale (ls ! i) = Some (ScaleNumber (Fin v)) \<longrightarrow>
          n_scale (norm_layers n ! i) = \<lparr>vx = Fin v, vy = Fin v\<rparr>)
    \<and> (\<forall>sx sy. scale (ls ! i) = Some (ScaleVec \<lparr>vx = Fin sx, vy = Fin sy\<rparr>) \<longrightarrow>
          n_scale (norm_layers n ! i) = \<lparr>vx = Fin sx, vy = Fin sy\<rparr>)
    \<and> (\<forall>b v. behaviors (ls ! i) = Some b \<longrightarrow>
          (\<forall>s. b_spin b = Some s \<and> ps_rpm s = Some (Fin v)
               \<longrightarrow> spin_rpm (spin (n_behaviors (norm_layers n ! i))) = Fin v)
          \<and> (\<forall>ob. b_orbit b = Some ob \<and> po_rpm ob = Some (Fin v)
               \<longrightarrow> orbit_rpm (orbit (n_behaviors (norm_layers n ! i))) = Fin v)
          \<and> (\<forall>ob. b_orbit b = Some ob \<and> po_radius ob = Some (Fin v)
               \<longrightarrow> orbit_radius (orbit (n_behaviors (norm_layers n ! i))) = Fin v)
          \<and> (\<forall>pu. b_pulse b = Some pu \<and> pp_amplitude pu = Some (Fin v)
               \<longrightarrow> pulse_amplitude (pulse (n_behaviors (norm_layers n ! i))) = Fin v)
          \<and> (\<forall>pu. b_pulse b = Some pu \<and> pp_rpm pu = Some (Fin v)
               \<longrightarrow> pulse_rpm (pulse (n_behaviors (norm_layers n ! i))) = Fin v)
          \<and> (\<forall>fa. b_fade b = Some fa \<and> pf_rpm fa = Some (Fin v)
               \<longrightarrow> fade_rpm (fade (n_behaviors (norm_layers n ! i))) = Fin v)
          \<and> (\<forall>fa. b_fade b = Some fa \<and> pf_from fa = Some (Fin v)
               \<longrightarrow> fade_from (fade (n_behaviors (norm_layers n ! i))) = Fin (max 0 (min 1 v)))
          \<and> (\<forall>fa. b_fade b = Some fa \<and> pf_to fa = Some (Fin v)
               \<longrightarrow> fade_to (fade (n_behaviors (norm_layers n ! i))) = Fin (max 0 (min 1 v))))"
proof -
  from validate_accepted [OF assms(2)] assms(1,3) obtain st' lid ref where
    len: "length (norm_layers n) = length ls"
    and ws: "set (warns (normalizeLayer st' (layerBase i) (ls ! i) lid ref))
              \<subseteq> set (warnings (validateLibraryConfig cfg))"
    and nth: "norm_layers n ! i
              = last (normalizedLayers (normalizeLayer st' (layerBase i) (ls ! i) lid ref))"
    by fastforce
  note f = normalizeLayer_fields [of st' "layerBase i" "ls ! i" lid ref, folded nth]
  have op: "n_opacity (norm_layers n ! i) = Fin v
      \<and> (v < 0 \<or> 1 < v \<longrightarrow>
           issue SevWarning ''layer.opacity.range'' (layerBase i @ ''.opacity'')
             ''opacity should be within [0,1]'' \<in> set (warnings (validateLibraryConfig cfg)))"
    if "opacity (ls ! i) = Some (Fin v)" for v
  proof -
    have v: "numOr (opacity (ls ! i)) DEFAULT_OPACITY = Fin v"
      using that by (simp add: numOr_def)
    have "issue SevWarning ''layer.opacity.range'' (layerBase i @ ''.opacity'')
             ''opacity should be within [0,1]'' \<in> set (warnings (validateLibraryConfig cfg))"
      if "v < 0 \<or> 1 < v"
      using normalizeLayer_opacity_warning [of "ls ! i" "layerBase i" st' lid ref] v that ws by auto
    then show ?thesis using f(1) v by simp
  qed
  have an: "n_anchor (norm_layers n ! i) = \<lparr>vx = Fin ax, vy = Fin ay\<rparr>
      \<and> (ax < 0 \<or> 1 < ax \<or> ay < 0 \<or> 1 < ay \<longrightarrow>
           issue SevWarning ''layer.anchor.range'' (layerBase i @ ''.anchor'')
             ''anchor should be [0..1]'' \<in> set (warnings (validateLibraryConfig cfg)))"
    if "anchor (ls ! i) = Some \<lparr>vx = Fin ax, vy = Fin ay\<rparr>" for ax ay
  proof -
    have a: "(if isVec2 (anchor (ls ! i)) then orElse (anchor (ls ! i)) DEFAULT_ANCHOR
              else DEFAULT_ANCHOR) = \<lparr>vx = Fin ax, vy = Fin ay\<rparr>"
      using that by (simp add: isVec2_def orElse_def)
    have "issue SevWarning ''layer.anchor.range'' (layerBase i @ ''.anchor'')
             ''anchor should be [0..1]'' \<in> set (warnings (validateLibraryConfig cfg))"
      if "ax < 0 \<or> 1 < ax \<or> ay < 0 \<or> 1 < ay"
      using normalizeLayer_anchor_warning [OF a [symmetric], of "layerBase i" st' lid ref] that ws
      by auto
    then show ?thesis using f(2) a by simp
  qed
  have ang: "n_angle (norm_layers n ! i) = Fin v" if "angle (ls ! i) = Some (Fin v)" for v
    using f(6) that by (simp add: numOr_def)
  have pos: "n_position (norm_layers n ! i) = \<lparr>vx = Fin px, vy = Fin py\<rparr>"
    if "position (ls ! i) = Some \<lparr>vx = Fin px, vy = Fin py\<rparr>" for px py
    using f(3) that by (simp add: isVec2_def orElse_def)
  have til: "n_tilt (norm_layers n ! i) = \<lparr>vx = Fin tx, vy = Fin ty\<rparr>"
    if "tilt (ls ! i) = Some \<lparr>vx = Fin tx, vy = Fin ty\<rparr>" for tx ty
    using f(4) that by (simp add: isVec2_def orElse_def)
  have sc1: "n_scale (norm_layers n ! i) = \<lparr>vx = Fin v, vy = Fin v\<rparr>"
    if "scale (ls ! i) = Some (ScaleNumber (Fin v))" for v
    using f(5) that by (simp add: normalizeScale_def isNum_def)
  have sc2: "n_scale (norm_layers n ! i) = \<lparr>vx = Fin sx, vy = Fin sy\<rparr>"
    if "scale (ls ! i) = Some (ScaleVec \<lparr>vx = Fin sx, vy = Fin sy\<rparr>)" for sx sy
    using f(5) that by (simp add: normalizeScale_def isVec2_def)
  have beh: "n_behaviors (norm_layers n ! i) = normalizeBehaviors (behaviors (ls ! i))"
    by (rule f(7))
  have c2: "\<forall>v. opacity (ls ! i) = Some (Fin v) \<longrightarrow>
          n_opacity (norm_layers n ! i) = Fin v
          \<and> (v < 0 \<or> 1 < v \<longrightarrow>
               issue SevWarning ''layer.opacity.range'' (layerBase i @ ''.opacity'')
                 ''opacity should be within [0,1]'' \<in> set (warnings (validateLibraryConfig cfg)))"
    using op by blast
  have c3: "\<forall>ax ay. anchor (ls ! i) = Some \<lparr>vx = Fin ax, vy = Fin ay\<rparr> \<longrightarrow>
          n_anchor (norm_layers n ! i) = \<lparr>vx = Fin ax, vy = Fin ay\<rparr>
          \<and> (ax < 0 \<or> 1 < ax \<or> ay < 0 \<or> 1 < ay \<longrightarrow>
               issue SevWarning ''layer.anchor.range'' (layerBase i @ ''.anchor'')
                 ''anchor should be [0..1]'' \<in> set (warnings (validateLibraryConfig cfg)))"
    using an by blast
  have c4: "\<forall>v. angle (ls ! i) = Some (Fin v) \<longrightarrow> n_angle (norm_layers n ! i) = Fin v"
    using ang by blast
  have c5: "\<forall>px py. position (ls ! i) = Some \<lparr>vx = Fin px, vy = Fin py\<rparr> \<longrightarrow>
          n_position (norm_layers n ! i) = \<lparr>vx = Fin px, vy = Fin py\<rparr>"
    using pos by blast
  have c6: "\<forall>tx ty. tilt (ls ! i) = Some \<lparr>vx = Fin tx, vy = Fin ty\<rparr> \<longrightarrow>
          n_tilt (norm_layers n ! i) = \<lparr>vx = Fin tx, vy = Fin ty\<rparr>"
    using til by blast
  have c7: "\<forall>v. scale (ls ! i) = Some (ScaleNumber (Fin v)) \<longrightarrow>
          n_scale (norm_layers n ! i) = \<lparr>vx = Fin v, vy = Fin v\<rparr>"
    using sc1 by blast
  have c8: "\<forall>sx sy. scale (ls ! i) = Some (ScaleVec \<lparr>vx = Fin sx, vy = Fin sy\<rparr>) \<longrightarrow>
          n_scale (norm_layers n ! i) = \<lparr>vx = Fin sx, vy = Fin sy\<rparr>"
    using sc2 by blast
  show ?thesis
    unfolding beh
    by (intro conjI len c2 c3 c4 c5 c6 c7 c8 allI impI normalizeBehaviors_carried)
qed

theorem normalization_keeps_values_witness:
  "\<exists>n. normalized (validateLibraryConfig warningConfig) = Some n
     \<and> n_opacity (norm_layers n ! 0) = Fin (3/2)
     \<and> issue SevWarning ''layer.opacity.range'' (layerBase 0 @ ''.opacity'')
          ''opacity should be within [0,1]'' \<in> set (warnings (validateLibraryConfig warningConfig))"
proof -
  obtain n where n: "normalized (validateLibraryConfig warningConfig) = Some n"
    using validate_warningConfig validate_normalized_iff(1) [of warningConfig] by auto
  have ls: "layers warningConfig
      = Some [emptyLayer\<lparr>layerId := Some ''warning-layer'', imagePath := Some ''/test.png'',
                         opacity := Some (Fin (3/2))\<rparr>]"
    by (simp add: warningConfig_def)
  have i: "0 < length [emptyLayer\<lparr>layerId := Some ''warning-layer'', imagePath := Some ''/test.png'',
                         opacity := Some (Fin (3/2))\<rparr>]"
    by simp
  have k: "opacity ([emptyLayer\<lparr>layerId := Some ''warning-layer'', imagePath := Some ''/test.png'',
                         opacity := Some (Fin (3/2))\<rparr>] ! 0) = Some (Fin (3/2))"
    by simp
  note t = normalization_keeps_values [OF ls n i]
  from t [THEN conjunct2, THEN conjunct1, rule_format, OF k]
  have "n_opacity (norm_layers n ! 0) = Fin (3/2)
      \<and> issue SevWarning ''layer.opacity.range'' (layerBase 0 @ ''.opacity'')
             ''opacity should be within [0,1]'' \<in> set (warnings (validateLibraryConfig warningConfig))"
    by simp
  then show ?thesis using n by simp
qed

end
